theory Spec2Isabelle
  imports Main "HOL-Library.Word" "HOL-Library.Signed_Division"
begin

section \<open>Data model (psi.go)\<close>

text \<open>
  The package monitors Linux pressure-stall information. The repository holds two
  revisions of the package file: \<^verbatim>\<open>src/psi.go\<close> and the documented revision
  \<^verbatim>\<open>src/unnamed/part_000\<close>. \<^verbatim>\<open>Config\<close>, \<^verbatim>\<open>Check\<close> and \<^verbatim>\<open>Explain\<close> are the same in
  both; \<^verbatim>\<open>ErrStopMonitoring\<close> and the \<^verbatim>\<open>break\<close> on it exist only in
  \<^verbatim>\<open>part_000\<close>, embedded here as \<open>Monitor\<close>; the \<open>Monitor\<close> of \<^verbatim>\<open>psi.go\<close> is
  embedded as \<open>Monitor_psi_go\<close>.
\<close>

text \<open>\<^verbatim>\<open>type Resource string\<close>, \<^verbatim>\<open>type StallType string\<close>: open string types.\<close>

type_synonym Resource = string
type_synonym StallType = string

definition ResourceCPU :: Resource where "ResourceCPU = ''cpu''"
definition ResourceIO :: Resource where "ResourceIO = ''io''"
definition ResourceMemory :: Resource where "ResourceMemory = ''memory''"

definition StallTypeFull :: StallType where "StallTypeFull = ''full''"
definition StallTypeSome :: StallType where "StallTypeSome = ''some''"

text \<open>
  \<^verbatim>\<open>time.Duration\<close> is an \<^verbatim>\<open>int64\<close> count of nanoseconds: a 64-bit word, compared
  as a signed value (\<open><s\<close>, \<open>\<le>s\<close>) and read with \<open>sint\<close>.
\<close>

type_synonym Duration = "64 word"

definition Nanosecond :: Duration where "Nanosecond = 1"
definition Microsecond :: Duration where "Microsecond = 1000 * Nanosecond"
definition Millisecond :: Duration where "Millisecond = 1000 * Microsecond"
definition Second :: Duration where "Second = 1000 * Millisecond"

record Config =
  Resource :: Resource
  Type :: StallType
  StallWindowDuration :: Duration
  WindowDuration :: Duration

text \<open>
  A Go \<^verbatim>\<open>error\<close> value. \<open>ErrStopMonitoring\<close> is the package variable (one
  allocated value, compared by identity); \<open>Errorf s\<close> is any other value made by
  \<^verbatim>\<open>fmt.Errorf\<close>, also one carrying the same text as the sentinel; \<open>Errno n\<close> is
  an error of the operating system. The \<^verbatim>\<open>nil\<close> error is \<open>None\<close> of
  \<open>error option\<close>.
\<close>

datatype error = ErrStopMonitoring | Errorf string | Errno nat

section \<open>Check\<close>

definition Check :: "Config \<Rightarrow> error option" where
  "Check c =
     (if WindowDuration c <s Millisecond * 500 then
        Some (Errorf ''Minmum WindowDuration is 500ms'')
      else if Second * 10 <s WindowDuration c then
        Some (Errorf ''Maximum WindowDuration is 10s'')
      else if StallWindowDuration c <s Millisecond * 50 then
        Some (Errorf ''Minmum StallWindowDuration is 50ms'')
      else if Second <s StallWindowDuration c then
        Some (Errorf ''Maximum StallWindowDuration is 1s'')
      else None)"

section \<open>Library functions used by the package\<close>

text \<open>
  Modelled from the spec: \<^verbatim>\<open>time.Duration.String\<close>, \<^verbatim>\<open>time.Duration.Microseconds\<close>
  and the \<^verbatim>\<open>%d\<close> verb of \<^verbatim>\<open>fmt\<close> belong to the Go standard library and are not
  under src/. The spec has each duration of \<^verbatim>\<open>Explain\<close> "rendered in its natural
  human units (e.g., 100ms, 1s)" and the control line's durations "converted to integer
  microseconds (truncating any sub-microsecond precision)" as "base-10 microsecond
  counts". The definitions follow the library's algorithms: digits are written from
  the right into a buffer, of which \<open>buf\<close> is the part already written.
\<close>

definition digit :: "nat \<Rightarrow> char" where
  "digit d = char_of (d + 48)"

function fmtInt_loop :: "nat \<Rightarrow> string \<Rightarrow> string" where
  "fmtInt_loop v buf =
     (if 0 < v then fmtInt_loop (v div 10) (digit (v mod 10) # buf) else buf)"
  by pat_completeness auto
termination
  by (relation "measure (\<lambda>(v, buf). v)") auto

definition fmtInt :: "string \<Rightarrow> nat \<Rightarrow> string" where
  "fmtInt buf v = (if v = 0 then CHR ''0'' # buf else fmtInt_loop v buf)"

function fmtFrac_loop :: "nat \<Rightarrow> nat \<Rightarrow> string \<Rightarrow> bool \<Rightarrow> nat \<Rightarrow> string \<times> bool \<times> nat" where
  "fmtFrac_loop i prec buf print v =
     (if i < prec then
        (let d = v mod 10;
             print' = (print \<or> d \<noteq> 0);
             buf' = (if print' then digit d # buf else buf)
         in fmtFrac_loop (Suc i) prec buf' print' (v div 10))
      else (buf, print, v))"
  by pat_completeness auto
termination
  by (relation "measure (\<lambda>(i, prec, buf, print, v). prec - i)") auto

definition fmtFrac :: "string \<Rightarrow> nat \<Rightarrow> nat \<Rightarrow> string \<times> nat" where
  "fmtFrac buf v prec =
     (case fmtFrac_loop 0 prec buf False v of
        (buf', print, v') \<Rightarrow> (if print then CHR ''.'' # buf' else buf', v'))"

text \<open>The two bytes of the micro sign in UTF-8.\<close>

definition micro_sign :: string where
  "micro_sign = [CHR 0xC2, CHR 0xB5]"

text \<open>
  Modelled from the spec: \<^verbatim>\<open>func (d Duration) String() string\<close> of the standard library
  (not under src/), "each duration rendered in its natural human units": below one
  second in ns, \<^verbatim>\<open>us\<close> (with the micro sign) or ms, from one second on as hours,
  minutes and seconds, with the fraction's trailing zeros dropped.
\<close>

definition Duration_String :: "Duration \<Rightarrow> string" where
  "Duration_String d =
     (let neg = d <s 0;
          u = (if neg then unat (- d) else unat d)
      in if u = 0 then ''0s''
         else
           (let body =
              (if u < unat Second then
                 (let (unit, prec) =
                    (if u < unat Microsecond then (''ns'', 0)
                     else if u < unat Millisecond then (micro_sign @ ''s'', 3)
                     else (''ms'', 6));
                      (buf, u') = fmtFrac unit u prec
                  in fmtInt buf u')
               else
                 (let (buf, secs) = fmtFrac ''s'' u 9;
                      buf1 = fmtInt buf (secs mod 60);
                      mins = secs div 60
                  in if 0 < mins then
                       (let buf2 = fmtInt (CHR ''m'' # buf1) (mins mod 60);
                            hours = mins div 60
                        in if 0 < hours then fmtInt (CHR ''h'' # buf2) hours else buf2)
                     else buf1))
            in if neg then CHR ''-'' # body else body))"

text \<open>
  Modelled from the spec: \<^verbatim>\<open>func (d Duration) Microseconds() int64 { return int64(d) / 1e3 }\<close>
  of the standard library (not under src/), "truncating any sub-microsecond precision":
  Go's division truncates towards zero.
\<close>

definition Microseconds :: "Duration \<Rightarrow> int" where
  "Microseconds d = sint d sdiv 1000"

text \<open>
  Modelled from the spec: the \<^verbatim>\<open>%d\<close> verb of \<^verbatim>\<open>fmt\<close> (standard library, not under
  src/) on an \<^verbatim>\<open>int64\<close>, a "base-10" count with a minus sign when negative.
\<close>

definition Sprintf_d :: "int \<Rightarrow> string" where
  "Sprintf_d i = (if i < 0 then CHR ''-'' # fmtInt [] (nat (- i)) else fmtInt [] (nat i))"

section \<open>Explain\<close>

definition Explain :: "Config \<Rightarrow> string" where
  "Explain c =
     (let name =
        (if Type c = StallTypeSome then ''at least one''
         else if Type c = StallTypeFull then ''all of''
         else ''UNKNOWN'')
      in name @ '' of the tasks in the queue are waiting for '' @ Resource c
           @ '' for longer than '' @ Duration_String (StallWindowDuration c)
           @ '' measured within a '' @ Duration_String (WindowDuration c)
           @ '' time window'' @ [CHR 0x0A])"

section \<open>Monitor\<close>

text \<open>
  \<open>Monitor\<close> talks to the kernel and to the caller's callback. Everything it does
  there is recorded, in order, as a list of events; what the kernel and the callback
  answer is given by the environment and by the callback's sequence of results.
\<close>

datatype event =
    EvOpen string
  | EvWrite nat string
  | EvPoll nat
  | EvCallback
  | EvClose nat

text \<open>
  \<^verbatim>\<open>unix.Poll\<close> is called with timeout \<open>-1\<close>: it either blocks forever or returns,
  with an error or without one (the file is ready).
\<close>

datatype poll_result = Poll_blocks | Poll_returns "error option"

text \<open>
  \<open>os_OpenFile env path\<close> is the result of
  \<^verbatim>\<open>os.OpenFile(path, O_RDWR|O_NONBLOCK, 0)\<close>: an error or a file (its descriptor);
  \<open>Fprintf env fd s\<close> is the error of writing the formatted text \<open>s\<close> to the
  file, \<open>None\<close> for \<^verbatim>\<open>nil\<close>; \<open>unix_Poll env fd i\<close> is the outcome of the
  \<open>i\<close>-th call (from 0) of \<^verbatim>\<open>unix.Poll\<close> on the file for \<^verbatim>\<open>EPOLLPRI\<close>.
\<close>

record env =
  os_OpenFile :: "string \<Rightarrow> error + nat"
  Fprintf :: "nat \<Rightarrow> string \<Rightarrow> error option"
  unix_Poll :: "nat \<Rightarrow> nat \<Rightarrow> poll_result"

text \<open>
  \<^verbatim>\<open>type MonitorCallback func() error\<close>: a closure, which may answer differently
  each time; \<open>cb i\<close> is the result of its \<open>i\<close>-th invocation (from 0). The
  callback is taken to return each time it is invoked.
\<close>

type_synonym MonitorCallback = "nat \<Rightarrow> error option"

text \<open>
  The \<^verbatim>\<open>for\<close> loop of \<open>Monitor\<close> (part_000, lines 154-168), at its \<open>i\<close>-th
  iteration, after the events \<open>tr\<close>. The loop may run or wait forever: the
  result is \<open>None\<close> then, and \<open>Some (err, events)\<close> when the loop is left, with
  \<open>err = None\<close> after the \<^verbatim>\<open>break\<close>.
\<close>

partial_function (option) Monitor_loop ::
  "env \<Rightarrow> MonitorCallback \<Rightarrow> nat \<Rightarrow> nat \<Rightarrow> event list \<Rightarrow> (error option \<times> event list) option"
where [code]:
  "Monitor_loop env cb fd i tr =
     (case unix_Poll env fd i of
        Poll_blocks \<Rightarrow> None
      | Poll_returns (Some err) \<Rightarrow> Some (Some err, tr @ [EvPoll fd])
      | Poll_returns None \<Rightarrow>
          (case cb i of
             Some err \<Rightarrow>
               if err = ErrStopMonitoring
               then Some (None, tr @ [EvPoll fd, EvCallback])
               else Some (Some err, tr @ [EvPoll fd, EvCallback])
           | None \<Rightarrow> Monitor_loop env cb fd (Suc i) (tr @ [EvPoll fd, EvCallback])))"

text \<open>\<^verbatim>\<open>defer fd.Close()\<close>: the file is closed when the function returns, whatever
  the return statement.\<close>

definition deferred_Close ::
  "nat \<Rightarrow> (error option \<times> event list) option \<Rightarrow> (error option \<times> event list) option"
where
  "deferred_Close fd r = map_option (\<lambda>(err, tr). (err, tr @ [EvClose fd])) r"

text \<open>The text formatted by \<^verbatim>\<open>fmt.Fprintf(fd, "%s %d %d\x00", ...)\<close>.\<close>

definition control_line :: "Config \<Rightarrow> string" where
  "control_line config =
     Type config @ '' '' @ Sprintf_d (Microseconds (StallWindowDuration config))
       @ '' '' @ Sprintf_d (Microseconds (WindowDuration config)) @ [CHR 0x00]"

text \<open>The path formatted by \<^verbatim>\<open>fmt.Sprintf("/proc/pressure/%s", config.Resource)\<close>.\<close>

definition pressure_path :: "Resource \<Rightarrow> string" where
  "pressure_path r = ''/proc/pressure/'' @ r"

definition Monitor ::
  "env \<Rightarrow> Config \<Rightarrow> MonitorCallback \<Rightarrow> (error option \<times> event list) option"
where
  "Monitor env config cb =
     (case Check config of
        Some err \<Rightarrow> Some (Some err, [])
      | None \<Rightarrow>
          (let path = pressure_path (Resource config)
           in case os_OpenFile env path of
                Inl err \<Rightarrow> Some (Some err, [EvOpen path])
              | Inr fd \<Rightarrow>
                  deferred_Close fd
                    (let line = control_line config
                     in case Fprintf env fd line of
                          Some err \<Rightarrow> Some (Some err, [EvOpen path, EvWrite fd line])
                        | None \<Rightarrow>
                            Monitor_loop env cb fd 0 [EvOpen path, EvWrite fd line])))"

text \<open>
  The revision \<^verbatim>\<open>src/psi.go\<close> of \<open>Monitor\<close> has no sentinel: its loop returns
  every error of the callback, and the function has no other return after the loop.
  Everything else is the same.
\<close>

partial_function (option) Monitor_loop_psi_go ::
  "env \<Rightarrow> MonitorCallback \<Rightarrow> nat \<Rightarrow> nat \<Rightarrow> event list \<Rightarrow> (error option \<times> event list) option"
where [code]:
  "Monitor_loop_psi_go env cb fd i tr =
     (case unix_Poll env fd i of
        Poll_blocks \<Rightarrow> None
      | Poll_returns (Some err) \<Rightarrow> Some (Some err, tr @ [EvPoll fd])
      | Poll_returns None \<Rightarrow>
          (case cb i of
             Some err \<Rightarrow> Some (Some err, tr @ [EvPoll fd, EvCallback])
           | None \<Rightarrow> Monitor_loop_psi_go env cb fd (Suc i) (tr @ [EvPoll fd, EvCallback])))"

definition Monitor_psi_go ::
  "env \<Rightarrow> Config \<Rightarrow> MonitorCallback \<Rightarrow> (error option \<times> event list) option"
where
  "Monitor_psi_go env config cb =
     (case Check config of
        Some err \<Rightarrow> Some (Some err, [])
      | None \<Rightarrow>
          (let path = pressure_path (Resource config)
           in case os_OpenFile env path of
                Inl err \<Rightarrow> Some (Some err, [EvOpen path])
              | Inr fd \<Rightarrow>
                  deferred_Close fd
                    (let line = control_line config
                     in case Fprintf env fd line of
                          Some err \<Rightarrow> Some (Some err, [EvOpen path, EvWrite fd line])
                        | None \<Rightarrow>
                            Monitor_loop_psi_go env cb fd 0 [EvOpen path, EvWrite fd line])))"

text \<open>
  \<open>Monitor\<close> with a bound on the rounds of its loop, to tell what a session has
  done so far also when it never returns. \<open>Monitor_rounds n\<close> runs \<open>Monitor\<close>
  (part_000, lines 128-170) statement by statement and gives up after \<open>n\<close> rounds of
  the loop: the result is \<open>Returned err\<close> with all the events when \<open>Monitor\<close> has
  returned by then, and \<open>Running\<close> with the events so far when it is still in the
  loop or waits in a \<^verbatim>\<open>unix.Poll\<close> that does not return. With the bound 0 these are
  the events of the statements before the loop. The deferred close takes place at a
  return only.
\<close>

datatype progress = Running | Returned "error option"

fun Monitor_loop_rounds ::
  "nat \<Rightarrow> env \<Rightarrow> MonitorCallback \<Rightarrow> nat \<Rightarrow> nat \<Rightarrow> event list \<Rightarrow> progress \<times> event list"
where
  "Monitor_loop_rounds 0 env cb fd i tr = (Running, tr)"
| "Monitor_loop_rounds (Suc n) env cb fd i tr =
     (case unix_Poll env fd i of
        Poll_blocks \<Rightarrow> (Running, tr @ [EvPoll fd])
      | Poll_returns (Some err) \<Rightarrow> (Returned (Some err), tr @ [EvPoll fd])
      | Poll_returns None \<Rightarrow>
          (case cb i of
             Some err \<Rightarrow>
               if err = ErrStopMonitoring
               then (Returned None, tr @ [EvPoll fd, EvCallback])
               else (Returned (Some err), tr @ [EvPoll fd, EvCallback])
           | None \<Rightarrow> Monitor_loop_rounds n env cb fd (Suc i) (tr @ [EvPoll fd, EvCallback])))"

definition deferred_Close_rounds :: "nat \<Rightarrow> progress \<times> event list \<Rightarrow> progress \<times> event list" where
  "deferred_Close_rounds fd r =
     (case r of
        (Running, tr) \<Rightarrow> (Running, tr)
      | (Returned err, tr) \<Rightarrow> (Returned err, tr @ [EvClose fd]))"

definition Monitor_rounds ::
  "nat \<Rightarrow> env \<Rightarrow> Config \<Rightarrow> MonitorCallback \<Rightarrow> progress \<times> event list"
where
  "Monitor_rounds n env config cb =
     (case Check config of
        Some err \<Rightarrow> (Returned (Some err), [])
      | None \<Rightarrow>
          (let path = pressure_path (Resource config)
           in case os_OpenFile env path of
                Inl err \<Rightarrow> (Returned (Some err), [EvOpen path])
              | Inr fd \<Rightarrow>
                  deferred_Close_rounds fd
                    (let line = control_line config
                     in case Fprintf env fd line of
                          Some err \<Rightarrow> (Returned (Some err), [EvOpen path, EvWrite fd line])
                        | None \<Rightarrow>
                            Monitor_loop_rounds n env cb fd 0 [EvOpen path, EvWrite fd line])))"

section \<open>Vocabulary of the properties\<close>

text \<open>
  The spec's reading of \<open>Check\<close>: a list of checks in a fixed order, of which the
  first that fails gives the error.
\<close>

definition first_failing :: "(bool \<times> error) list \<Rightarrow> error option" where
  "first_failing checks = map_option snd (find fst checks)"

definition Check_spec :: "Config \<Rightarrow> error option" where
  "Check_spec c = first_failing
     [(WindowDuration c <s Millisecond * 500, Errorf ''Minmum WindowDuration is 500ms''),
      (Second * 10 <s WindowDuration c, Errorf ''Maximum WindowDuration is 10s''),
      (StallWindowDuration c <s Millisecond * 50, Errorf ''Minmum StallWindowDuration is 50ms''),
      (Second <s StallWindowDuration c, Errorf ''Maximum StallWindowDuration is 1s'')]"

text \<open>The events of \<open>k\<close> rounds of the loop in which nothing fails and nothing stops.\<close>

definition rounds :: "nat \<Rightarrow> nat \<Rightarrow> event list" where
  "rounds fd k = concat (replicate k [EvPoll fd, EvCallback])"

text \<open>
  \<open>leaves_at env cb fd i tr y\<close>: started at iteration \<open>i\<close>, the loop goes through
  some \<open>k\<close> rounds in which the wait returns without error and the callback returns
  \<^verbatim>\<open>nil\<close>, and is left in the next one with \<open>y\<close>: by a failed wait, or by a callback
  that returns an error (\<^verbatim>\<open>nil\<close> is returned for the sentinel).
\<close>

definition leaves_at ::
  "env \<Rightarrow> MonitorCallback \<Rightarrow> nat \<Rightarrow> nat \<Rightarrow> event list \<Rightarrow> error option \<times> event list \<Rightarrow> bool"
where
  "leaves_at env cb fd i tr y =
     (\<exists>k. (\<forall>j<k. unix_Poll env fd (i + j) = Poll_returns None \<and> cb (i + j) = None) \<and>
          ((\<exists>err. unix_Poll env fd (i + k) = Poll_returns (Some err) \<and>
                  y = (Some err, tr @ rounds fd k @ [EvPoll fd])) \<or>
           (\<exists>err. unix_Poll env fd (i + k) = Poll_returns None \<and> cb (i + k) = Some err \<and>
                  y = (if err = ErrStopMonitoring then None else Some err,
                       tr @ rounds fd k @ [EvPoll fd, EvCallback]))))"

definition is_write :: "event \<Rightarrow> bool" where
  "is_write e = (case e of EvWrite fd s \<Rightarrow> True | _ \<Rightarrow> False)"

definition is_close :: "event \<Rightarrow> bool" where
  "is_close e = (case e of EvClose fd \<Rightarrow> True | _ \<Rightarrow> False)"

text \<open>What the two revisions of \<open>Monitor\<close> return differs in this only: after the
  sentinel \<^verbatim>\<open>part_000\<close> returns \<^verbatim>\<open>nil\<close> and \<^verbatim>\<open>psi.go\<close> returns the sentinel.\<close>

definition nil_as_sentinel :: "error option \<times> event list \<Rightarrow> error option \<times> event list" where
  "nil_as_sentinel y =
     (case y of (None, tr) \<Rightarrow> (Some ErrStopMonitoring, tr) | (Some err, tr) \<Rightarrow> (Some err, tr))"

text \<open>The number that a string of decimal digits denotes.\<close>

definition decimal_value :: "string \<Rightarrow> nat" where
  "decimal_value s = foldl (\<lambda>a c. 10 * a + (of_char c - 48)) 0 s"

section \<open>Example inputs\<close>

text \<open>The Config of the example program (\<^verbatim>\<open>src/unnamed/part_001\<close>).\<close>

definition main_config :: Config where
  "main_config =
     \<lparr>Resource = ResourceCPU, Type = StallTypeSome,
      StallWindowDuration = Second div 10, WindowDuration = Second\<rparr>"

text \<open>A kernel on which the file opens as descriptor 3, every write succeeds and every
  wait returns without error.\<close>

definition kernel_ok :: env where
  "kernel_ok =
     \<lparr>os_OpenFile = (\<lambda>path. Inr 3), Fprintf = (\<lambda>fd s. None),
      unix_Poll = (\<lambda>fd i. Poll_returns None)\<rparr>"

section \<open>Lemmas on the constants and the library functions\<close>

lemma Millisecond_500: "Millisecond * 500 = (500000000 :: Duration)"
  by (simp add: Millisecond_def Microsecond_def Nanosecond_def)

lemma Millisecond_50: "Millisecond * 50 = (50000000 :: Duration)"
  by (simp add: Millisecond_def Microsecond_def Nanosecond_def)

lemma Second_val: "Second = (1000000000 :: Duration)"
  by (simp add: Second_def Millisecond_def Microsecond_def Nanosecond_def)

lemma Second_10: "Second * 10 = (10000000000 :: Duration)"
  by (simp add: Second_val)

lemma digit_simps:
  "digit 0 = CHR ''0''" "digit 1 = CHR ''1''" "digit 2 = CHR ''2''" "digit 3 = CHR ''3''"
  "digit 4 = CHR ''4''" "digit 5 = CHR ''5''" "digit 6 = CHR ''6''" "digit 7 = CHR ''7''"
  "digit 8 = CHR ''8''" "digit 9 = CHR ''9''" "digit (Suc 0) = CHR ''1''"
  by (simp_all add: digit_def char_of_def bit_simps)

lemma Millisecond_100: "Millisecond * 100 = (100000000 :: Duration)"
  by (simp add: Millisecond_def Microsecond_def Nanosecond_def)

lemma Second_div_10: "Second div 10 = Millisecond * 100"
  by (simp add: Second_val Millisecond_100)

lemma Duration_String_100ms: "Duration_String (Millisecond * 100) = ''100ms''"
  by (simp add: Millisecond_100 Duration_String_def word_sless_alt Second_val Millisecond_def
      Microsecond_def Nanosecond_def fmtInt_def fmtFrac_def digit_simps)

lemma Duration_String_1s: "Duration_String Second = ''1s''"
  by (simp add: Duration_String_def word_sless_alt Second_val fmtInt_def fmtFrac_def digit_simps)

lemma Sprintf_d_100000: "Sprintf_d 100000 = ''100000''"
  by (simp add: Sprintf_d_def fmtInt_def digit_simps)

lemma Sprintf_d_1000000: "Sprintf_d 1000000 = ''1000000''"
  by (simp add: Sprintf_d_def fmtInt_def digit_simps)

lemma Microseconds_100ms: "Microseconds (Millisecond * 100) = 100000"
  by (simp add: Millisecond_100 Microseconds_def signed_divide_int_def)

lemma Microseconds_1s: "Microseconds Second = 1000000"
  by (simp add: Second_val Microseconds_def signed_divide_int_def)

lemma of_char_digit: "d < 10 \<Longrightarrow> of_char (digit d) = d + (48 :: nat)"
  by (simp add: digit_def)

lemma decimal_value_snoc:
  "decimal_value (s @ [c]) = 10 * decimal_value s + (of_char c - 48)"
  by (simp add: decimal_value_def)

lemma fmtInt_loop_step:
  "0 < v \<Longrightarrow> fmtInt_loop v buf = fmtInt_loop (v div 10) (digit (v mod 10) # buf)"
  by (subst fmtInt_loop.simps) (simp del: fmtInt_loop.simps)

lemma fmtInt_loop_0: "fmtInt_loop 0 buf = buf"
  by (subst fmtInt_loop.simps) (simp del: fmtInt_loop.simps)

lemma fmtInt_loop_append: "fmtInt_loop v buf = fmtInt_loop v [] @ buf"
proof (induction v arbitrary: buf rule: less_induct)
  case (less v)
  show ?case
  proof (cases "0 < v")
    case True
    then have smaller: "v div 10 < v" by simp
    have "fmtInt_loop v buf = fmtInt_loop (v div 10) (digit (v mod 10) # buf)"
      using True by (rule fmtInt_loop_step)
    also have "\<dots> = fmtInt_loop (v div 10) [] @ (digit (v mod 10) # buf)"
      using smaller by (rule less.IH)
    also have "\<dots> = (fmtInt_loop (v div 10) [] @ [digit (v mod 10)]) @ buf"
      by (simp del: fmtInt_loop.simps)
    also have "fmtInt_loop (v div 10) [] @ [digit (v mod 10)]
                 = fmtInt_loop (v div 10) [digit (v mod 10)]"
      using smaller by (rule less.IH [symmetric])
    also have "\<dots> = fmtInt_loop v []"
      using True by (rule fmtInt_loop_step [symmetric])
    finally show ?thesis .
  next
    case False
    then show ?thesis by (simp add: fmtInt_loop_0 del: fmtInt_loop.simps)
  qed
qed

lemma decimal_value_fmtInt_loop: "decimal_value (fmtInt_loop v []) = v"
proof (induction v rule: less_induct)
  case (less v)
  show ?case
  proof (cases "0 < v")
    case True
    then have smaller: "v div 10 < v" by simp
    have "fmtInt_loop v [] = fmtInt_loop (v div 10) [digit (v mod 10)]"
      using True by (rule fmtInt_loop_step)
    also have "\<dots> = fmtInt_loop (v div 10) [] @ [digit (v mod 10)]"
      by (rule fmtInt_loop_append)
    finally have "decimal_value (fmtInt_loop v [])
        = 10 * decimal_value (fmtInt_loop (v div 10) []) + (of_char (digit (v mod 10)) - 48)"
      by (simp only: decimal_value_snoc)
    also have "decimal_value (fmtInt_loop (v div 10) []) = v div 10"
      using smaller by (rule less.IH)
    also have "of_char (digit (v mod 10)) - 48 = v mod 10"
      by (simp add: of_char_digit)
    finally show ?thesis by simp
  next
    case False
    then show ?thesis by (simp add: fmtInt_loop_0 decimal_value_def del: fmtInt_loop.simps)
  qed
qed

lemma decimal_value_Sprintf_d:
  assumes "0 \<le> i"
  shows "int (decimal_value (Sprintf_d i)) = i"
proof (cases "i = 0")
  case True
  then show ?thesis
    by (simp add: Sprintf_d_def fmtInt_def decimal_value_def)
next
  case False
  with assms have "Sprintf_d i = fmtInt_loop (nat i) []"
    by (simp add: Sprintf_d_def fmtInt_def del: fmtInt_loop.simps)
  with assms show ?thesis
    by (simp add: decimal_value_fmtInt_loop del: fmtInt_loop.simps)
qed

section \<open>Lemmas on the loop\<close>

lemma rounds_0: "rounds fd 0 = []"
  by (simp add: rounds_def)

lemma rounds_Suc: "rounds fd (Suc k) = [EvPoll fd, EvCallback] @ rounds fd k"
  by (simp add: rounds_def)

lemma rounds_snoc: "rounds fd (Suc k) = rounds fd k @ [EvPoll fd, EvCallback]"
  by (induction k) (simp_all add: rounds_def)

lemma Monitor_loop_step:
  "unix_Poll env fd i = Poll_returns None \<Longrightarrow> cb i = None \<Longrightarrow>
   Monitor_loop env cb fd i tr = Monitor_loop env cb fd (Suc i) (tr @ [EvPoll fd, EvCallback])"
  by (subst Monitor_loop.simps) simp

lemma Monitor_loop_skip:
  "(\<forall>j<k. unix_Poll env fd (i + j) = Poll_returns None \<and> cb (i + j) = None) \<Longrightarrow>
   Monitor_loop env cb fd i tr = Monitor_loop env cb fd (i + k) (tr @ rounds fd k)"
proof (induction k arbitrary: i tr)
  case 0
  then show ?case by (simp add: rounds_0)
next
  case (Suc k)
  from Suc.prems have here: "unix_Poll env fd i = Poll_returns None" "cb i = None"
    by (metis add.right_neutral zero_less_Suc)+
  have later: "\<forall>j<k. unix_Poll env fd (Suc i + j) = Poll_returns None \<and> cb (Suc i + j) = None"
    using Suc.prems by (metis Suc_less_eq add_Suc_shift)
  have "Monitor_loop env cb fd i tr = Monitor_loop env cb fd (Suc i) (tr @ [EvPoll fd, EvCallback])"
    using here by (rule Monitor_loop_step)
  also have "\<dots> = Monitor_loop env cb fd (Suc i + k) ((tr @ [EvPoll fd, EvCallback]) @ rounds fd k)"
    using later by (rule Suc.IH)
  finally show ?case by (simp add: rounds_Suc)
qed

lemma leaves_at_now_poll:
  "unix_Poll env fd i = Poll_returns (Some err) \<Longrightarrow>
   leaves_at env cb fd i tr (Some err, tr @ [EvPoll fd])"
  unfolding leaves_at_def by (intro exI [of _ 0]) (simp add: rounds_0)

lemma leaves_at_now_cb:
  "unix_Poll env fd i = Poll_returns None \<Longrightarrow> cb i = Some err \<Longrightarrow>
   leaves_at env cb fd i tr
     (if err = ErrStopMonitoring then None else Some err, tr @ [EvPoll fd, EvCallback])"
  unfolding leaves_at_def by (intro exI [of _ 0]) (simp add: rounds_0)

lemma leaves_at_later:
  assumes ready: "unix_Poll env fd i = Poll_returns None" and go: "cb i = None"
    and later: "leaves_at env cb fd (Suc i) (tr @ [EvPoll fd, EvCallback]) y"
  shows "leaves_at env cb fd i tr y"
proof -
  from later obtain k where
    q: "\<forall>j<k. unix_Poll env fd (Suc i + j) = Poll_returns None \<and> cb (Suc i + j) = None"
    and e: "(\<exists>err. unix_Poll env fd (Suc i + k) = Poll_returns (Some err) \<and>
               y = (Some err, (tr @ [EvPoll fd, EvCallback]) @ rounds fd k @ [EvPoll fd])) \<or>
            (\<exists>err. unix_Poll env fd (Suc i + k) = Poll_returns None \<and> cb (Suc i + k) = Some err \<and>
               y = (if err = ErrStopMonitoring then None else Some err,
                    (tr @ [EvPoll fd, EvCallback]) @ rounds fd k @ [EvPoll fd, EvCallback]))"
    unfolding leaves_at_def by blast
  have q': "\<forall>j<Suc k. unix_Poll env fd (i + j) = Poll_returns None \<and> cb (i + j) = None"
  proof (intro allI impI)
    fix j assume "j < Suc k"
    show "unix_Poll env fd (i + j) = Poll_returns None \<and> cb (i + j) = None"
    proof (cases j)
      case 0
      with ready go show ?thesis by simp
    next
      case (Suc j')
      with \<open>j < Suc k\<close> q show ?thesis by simp
    qed
  qed
  from e have e': "(\<exists>err. unix_Poll env fd (i + Suc k) = Poll_returns (Some err) \<and>
               y = (Some err, tr @ rounds fd (Suc k) @ [EvPoll fd])) \<or>
            (\<exists>err. unix_Poll env fd (i + Suc k) = Poll_returns None \<and> cb (i + Suc k) = Some err \<and>
               y = (if err = ErrStopMonitoring then None else Some err,
                    tr @ rounds fd (Suc k) @ [EvPoll fd, EvCallback]))"
    by (simp add: rounds_Suc)
  from q' e' show ?thesis unfolding leaves_at_def by blast
qed

lemma Monitor_loop_leaves:
  assumes "Monitor_loop env cb fd i tr = Some y"
  shows "leaves_at env cb fd i tr y"
proof (rule Monitor_loop.raw_induct [where P = leaves_at, OF _ assms])
  fix loop :: "env \<Rightarrow> MonitorCallback \<Rightarrow> nat \<Rightarrow> nat \<Rightarrow> event list \<Rightarrow> (error option \<times> event list) option"
  fix env cb fd i tr y
  assume IH: "\<And>env cb fd i tr y. loop env cb fd i tr = Some y \<Longrightarrow> leaves_at env cb fd i tr y"
  assume body: "(case unix_Poll env fd i of
        Poll_blocks \<Rightarrow> None
      | Poll_returns (Some err) \<Rightarrow> Some (Some err, tr @ [EvPoll fd])
      | Poll_returns None \<Rightarrow>
          (case cb i of
             Some err \<Rightarrow>
               if err = ErrStopMonitoring
               then Some (None, tr @ [EvPoll fd, EvCallback])
               else Some (Some err, tr @ [EvPoll fd, EvCallback])
           | None \<Rightarrow> loop env cb fd (Suc i) (tr @ [EvPoll fd, EvCallback]))) = Some y"
  show "leaves_at env cb fd i tr y"
  proof (cases "unix_Poll env fd i")
    case Poll_blocks
    with body show ?thesis by simp
  next
    case (Poll_returns r)
    show ?thesis
    proof (cases r)
      case (Some err)
      with Poll_returns body have "y = (Some err, tr @ [EvPoll fd])" by auto
      with Poll_returns Some show ?thesis by (simp add: leaves_at_now_poll)
    next
      case None
      note ready = Poll_returns [unfolded None]
      show ?thesis
      proof (cases "cb i")
        case (Some err)
        with ready body
        have "y = (if err = ErrStopMonitoring then None else Some err,
                   tr @ [EvPoll fd, EvCallback])"
          by (auto split: if_splits)
        with ready Some show ?thesis by (simp only: leaves_at_now_cb)
      next
        case None
        with ready body have "loop env cb fd (Suc i) (tr @ [EvPoll fd, EvCallback]) = Some y"
          by simp
        then have "leaves_at env cb fd (Suc i) (tr @ [EvPoll fd, EvCallback]) y"
          by (rule IH)
        with ready None show ?thesis by (rule leaves_at_later)
      qed
    qed
  qed
qed

lemma leaves_Monitor_loop:
  assumes "leaves_at env cb fd i tr y"
  shows "Monitor_loop env cb fd i tr = Some y"
proof -
  from assms obtain k where
    q: "\<forall>j<k. unix_Poll env fd (i + j) = Poll_returns None \<and> cb (i + j) = None"
    and e: "(\<exists>err. unix_Poll env fd (i + k) = Poll_returns (Some err) \<and>
                  y = (Some err, tr @ rounds fd k @ [EvPoll fd])) \<or>
           (\<exists>err. unix_Poll env fd (i + k) = Poll_returns None \<and> cb (i + k) = Some err \<and>
                  y = (if err = ErrStopMonitoring then None else Some err,
                       tr @ rounds fd k @ [EvPoll fd, EvCallback]))"
    unfolding leaves_at_def by blast
  have "Monitor_loop env cb fd i tr = Monitor_loop env cb fd (i + k) (tr @ rounds fd k)"
    using q by (rule Monitor_loop_skip)
  also from e have "\<dots> = Some y"
    by (subst Monitor_loop.simps) auto
  finally show ?thesis .
qed

section \<open>Properties of Check\<close>

lemma not_sless_iff: "(\<not> a <s b) = (b \<le>s (a :: Duration))"
  by (simp add: word_sless_alt word_sle_eq not_less)

lemma min_below_max_Window: "Millisecond * 500 <s (Second * 10 :: Duration)"
  by (simp add: Millisecond_500 Second_10 word_sless_alt)

lemma above_max_not_below_min:
  "Second * 10 <s w \<Longrightarrow> \<not> w <s Millisecond * 500"
  using min_below_max_Window by (auto simp: word_sless_alt)

text \<open>
  C2: for every Config whose WindowDuration lies in [500ms, 10s] and whose
  StallWindowDuration lies in [50ms, 1s], \<open>Check\<close> returns \<^verbatim>\<open>nil\<close>, whatever the
  Resource and the Type are and whatever the order of the two durations; and there is
  a Config with StallWindowDuration > WindowDuration that \<open>Check\<close> accepts.
\<close>

theorem Check_in_bounds:
  "(\<forall>c. Millisecond * 500 \<le>s WindowDuration c \<and> WindowDuration c \<le>s Second * 10 \<and>
        Millisecond * 50 \<le>s StallWindowDuration c \<and> StallWindowDuration c \<le>s Second
        \<longrightarrow> Check c = None) \<and>
   (\<exists>c. WindowDuration c <s StallWindowDuration c \<and> Check c = None)"
proof (intro conjI allI impI)
  fix c :: Config
  assume "Millisecond * 500 \<le>s WindowDuration c \<and> WindowDuration c \<le>s Second * 10 \<and>
        Millisecond * 50 \<le>s StallWindowDuration c \<and> StallWindowDuration c \<le>s Second"
  then show "Check c = None"
    by (simp add: Check_def not_sless_iff [symmetric])
next
  let ?c = "\<lparr>Resource = ResourceCPU, Type = StallTypeSome,
             StallWindowDuration = Second, WindowDuration = Millisecond * 500\<rparr>"
  have "WindowDuration ?c <s StallWindowDuration ?c \<and> Check ?c = None"
    by (simp add: Check_def Millisecond_500 Millisecond_50 Second_val Second_10 word_sless_alt)
  then show "\<exists>c :: Config. WindowDuration c <s StallWindowDuration c \<and> Check c = None"
    by blast
qed

theorem Check_in_bounds_witness:
  "Check \<lparr>Resource = ''disk'', Type = '''', StallWindowDuration = 1000000000,
           WindowDuration = 500000000\<rparr> = None"
proof -
  let ?c = "\<lparr>Resource = ''disk'', Type = '''', StallWindowDuration = 1000000000,
           WindowDuration = 500000000\<rparr> :: Config"
  have "Millisecond * 500 \<le>s WindowDuration ?c \<and> WindowDuration ?c \<le>s Second * 10 \<and>
        Millisecond * 50 \<le>s StallWindowDuration ?c \<and> StallWindowDuration ?c \<le>s Second"
    by (simp add: Millisecond_500 Millisecond_50 Second_val Second_10 word_sle_eq)
  with Check_in_bounds show ?thesis by blast
qed

text \<open>
  C3: \<open>Check\<close> makes its four checks in the fixed order (WindowDuration minimum,
  WindowDuration maximum, StallWindowDuration minimum, StallWindowDuration maximum) and
  returns the error of the first that fails. So a WindowDuration below 500ms or above
  10s gives the WindowDuration error of that bound whatever StallWindowDuration is, and
  with a valid WindowDuration a StallWindowDuration below 50ms or above 1s gives the
  StallWindowDuration error of that bound.
\<close>

theorem Check_first_failing:
  "Check c = Check_spec c \<and>
   (WindowDuration c <s Millisecond * 500 \<longrightarrow>
      Check c = Some (Errorf ''Minmum WindowDuration is 500ms'')) \<and>
   (Second * 10 <s WindowDuration c \<longrightarrow>
      Check c = Some (Errorf ''Maximum WindowDuration is 10s'')) \<and>
   (Millisecond * 500 \<le>s WindowDuration c \<and> WindowDuration c \<le>s Second * 10 \<and>
    StallWindowDuration c <s Millisecond * 50 \<longrightarrow>
      Check c = Some (Errorf ''Minmum StallWindowDuration is 50ms'')) \<and>
   (Millisecond * 500 \<le>s WindowDuration c \<and> WindowDuration c \<le>s Second * 10 \<and>
    Second <s StallWindowDuration c \<longrightarrow>
      Check c = Some (Errorf ''Maximum StallWindowDuration is 1s''))"
proof (intro conjI impI)
  show "Check c = Check_spec c"
    by (simp add: Check_def Check_spec_def first_failing_def)
next
  assume "WindowDuration c <s Millisecond * 500"
  then show "Check c = Some (Errorf ''Minmum WindowDuration is 500ms'')"
    by (simp add: Check_def)
next
  assume "Second * 10 <s WindowDuration c"
  then show "Check c = Some (Errorf ''Maximum WindowDuration is 10s'')"
    using above_max_not_below_min [of "WindowDuration c"] by (simp add: Check_def)
next
  assume "Millisecond * 500 \<le>s WindowDuration c \<and> WindowDuration c \<le>s Second * 10 \<and>
    StallWindowDuration c <s Millisecond * 50"
  then show "Check c = Some (Errorf ''Minmum StallWindowDuration is 50ms'')"
    by (simp add: Check_def not_sless_iff [symmetric])
next
  assume a: "Millisecond * 500 \<le>s WindowDuration c \<and> WindowDuration c \<le>s Second * 10 \<and>
    Second <s StallWindowDuration c"
  have "\<not> StallWindowDuration c <s Millisecond * 50"
    using a by (simp add: Millisecond_50 Second_val word_sless_alt)
  with a show "Check c = Some (Errorf ''Maximum StallWindowDuration is 1s'')"
    by (simp add: Check_def not_sless_iff [symmetric])
qed

theorem Check_first_failing_witness:
  "Check \<lparr>Resource = ResourceIO, Type = StallTypeFull, StallWindowDuration = Second * 5,
          WindowDuration = Millisecond * 499\<rparr>
     = Some (Errorf ''Minmum WindowDuration is 500ms'') \<and>
   Check \<lparr>Resource = ResourceIO, Type = StallTypeFull, StallWindowDuration = 0,
          WindowDuration = Second * 11\<rparr>
     = Some (Errorf ''Maximum WindowDuration is 10s'') \<and>
   Check \<lparr>Resource = ResourceIO, Type = StallTypeFull, StallWindowDuration = Millisecond * 49,
          WindowDuration = Second\<rparr>
     = Some (Errorf ''Minmum StallWindowDuration is 50ms'') \<and>
   Check \<lparr>Resource = ResourceIO, Type = StallTypeFull, StallWindowDuration = Second + 1,
          WindowDuration = Second * 10\<rparr>
     = Some (Errorf ''Maximum StallWindowDuration is 1s'')"
proof (intro conjI)
  let ?c1 = "\<lparr>Resource = ResourceIO, Type = StallTypeFull, StallWindowDuration = Second * 5,
          WindowDuration = Millisecond * 499\<rparr>"
  have "WindowDuration ?c1 <s Millisecond * 500"
    by (simp add: Millisecond_def Microsecond_def Nanosecond_def word_sless_alt)
  with Check_first_failing [of ?c1]
  show "Check ?c1 = Some (Errorf ''Minmum WindowDuration is 500ms'')" by blast
next
  let ?c2 = "\<lparr>Resource = ResourceIO, Type = StallTypeFull, StallWindowDuration = 0,
          WindowDuration = Second * 11\<rparr>"
  have "Second * 10 <s WindowDuration ?c2"
    by (simp add: Second_val word_sless_alt)
  with Check_first_failing [of ?c2]
  show "Check ?c2 = Some (Errorf ''Maximum WindowDuration is 10s'')" by blast
next
  let ?c3 = "\<lparr>Resource = ResourceIO, Type = StallTypeFull,
          StallWindowDuration = Millisecond * 49, WindowDuration = Second\<rparr>"
  have "Millisecond * 500 \<le>s WindowDuration ?c3 \<and> WindowDuration ?c3 \<le>s Second * 10 \<and>
        StallWindowDuration ?c3 <s Millisecond * 50"
    by (simp add: Second_def Millisecond_def Microsecond_def Nanosecond_def
        word_sless_alt word_sle_eq)
  with Check_first_failing [of ?c3]
  show "Check ?c3 = Some (Errorf ''Minmum StallWindowDuration is 50ms'')" by blast
next
  let ?c4 = "\<lparr>Resource = ResourceIO, Type = StallTypeFull, StallWindowDuration = Second + 1,
          WindowDuration = Second * 10\<rparr>"
  have "Millisecond * 500 \<le>s WindowDuration ?c4 \<and> WindowDuration ?c4 \<le>s Second * 10 \<and>
        Second <s StallWindowDuration ?c4"
    by (simp add: Second_def Millisecond_def Microsecond_def Nanosecond_def
        word_sless_alt word_sle_eq)
  with Check_first_failing [of ?c4]
  show "Check ?c4 = Some (Errorf ''Maximum StallWindowDuration is 1s'')" by blast
qed

text \<open>
  C10: the result of \<open>Check\<close> depends on StallWindowDuration and WindowDuration only:
  two Configs with the same two durations get the same result, whatever their Resource
  and Type are (empty or unsupported tags too).
\<close>

theorem Check_only_durations:
  "WindowDuration c = WindowDuration c' \<Longrightarrow>
   StallWindowDuration c = StallWindowDuration c' \<Longrightarrow> Check c = Check c'"
  by (simp add: Check_def)

theorem Check_only_durations_witness:
  "Check \<lparr>Resource = '''', Type = ''most'', StallWindowDuration = 7, WindowDuration = Second\<rparr>
     = Check \<lparr>Resource = ResourceMemory, Type = StallTypeSome, StallWindowDuration = 7,
              WindowDuration = Second\<rparr>"
  using Check_only_durations
    [of "\<lparr>Resource = '''', Type = ''most'', StallWindowDuration = 7, WindowDuration = Second\<rparr>"
        "\<lparr>Resource = ResourceMemory, Type = StallTypeSome, StallWindowDuration = 7,
          WindowDuration = Second\<rparr>"]
  by simp

section \<open>Lemmas on Monitor\<close>

lemma deferred_Close_Some:
  "deferred_Close fd r = Some (x, tr) \<longleftrightarrow> (\<exists>tr'. r = Some (x, tr') \<and> tr = tr' @ [EvClose fd])"
  by (cases r) (auto simp: deferred_Close_def)

lemma Monitor_invalid:
  "Check config = Some err \<Longrightarrow> Monitor env config cb = Some (Some err, [])"
  by (simp add: Monitor_def)

lemma Monitor_open_fails:
  "Check config = None \<Longrightarrow>
   os_OpenFile env (pressure_path (Resource config)) = Inl err \<Longrightarrow>
   Monitor env config cb = Some (Some err, [EvOpen (pressure_path (Resource config))])"
  by (simp add: Monitor_def)

lemma Monitor_write_fails:
  "Check config = None \<Longrightarrow>
   os_OpenFile env (pressure_path (Resource config)) = Inr fd \<Longrightarrow>
   Fprintf env fd (control_line config) = Some err \<Longrightarrow>
   Monitor env config cb =
     Some (Some err, [EvOpen (pressure_path (Resource config)),
                      EvWrite fd (control_line config), EvClose fd])"
  by (simp add: Monitor_def deferred_Close_def)

lemma Monitor_armed:
  "Check config = None \<Longrightarrow>
   os_OpenFile env (pressure_path (Resource config)) = Inr fd \<Longrightarrow>
   Fprintf env fd (control_line config) = None \<Longrightarrow>
   Monitor env config cb =
     deferred_Close fd
       (Monitor_loop env cb fd 0
          [EvOpen (pressure_path (Resource config)), EvWrite fd (control_line config)])"
  by (simp add: Monitor_def)

lemma Monitor_loop_iff:
  "Monitor_loop env cb fd i tr = Some y \<longleftrightarrow> leaves_at env cb fd i tr y"
  using Monitor_loop_leaves leaves_Monitor_loop by blast

lemma Monitor_armed_Some:
  assumes "Check config = None"
    and "os_OpenFile env (pressure_path (Resource config)) = Inr fd"
    and "Fprintf env fd (control_line config) = None"
  shows "Monitor env config cb = Some (x, tr) \<longleftrightarrow>
     (\<exists>tr'. leaves_at env cb fd 0
              [EvOpen (pressure_path (Resource config)), EvWrite fd (control_line config)]
              (x, tr') \<and> tr = tr' @ [EvClose fd])"
  by (simp add: Monitor_armed [OF assms] deferred_Close_Some Monitor_loop_iff)

lemma filter_rounds_write: "filter is_write (rounds fd k) = []"
  by (induction k) (simp_all add: rounds_0 rounds_Suc is_write_def)

lemma filter_rounds_close: "filter is_close (rounds fd k) = []"
  by (induction k) (simp_all add: rounds_0 rounds_Suc is_close_def)

lemma count_rounds_callback: "count_list (rounds fd k) EvCallback = k"
  by (induction k) (simp_all add: rounds_0 rounds_Suc)

lemma leaves_at_events:
  assumes "leaves_at env cb fd i tr (x, tr')"
  shows "\<exists>k l. tr' = tr @ rounds fd k @ l \<and> (l = [EvPoll fd] \<or> l = [EvPoll fd, EvCallback])"
  using assms unfolding leaves_at_def by auto

lemma Check_None_nonneg:
  assumes "Check config = None"
  shows "0 \<le> sint (StallWindowDuration config)" and "0 \<le> sint (WindowDuration config)"
  using assms
  by (simp_all add: Check_def Millisecond_500 Millisecond_50 word_sless_alt split: if_splits)

lemma Microseconds_nonneg: "0 \<le> sint d \<Longrightarrow> Microseconds d = sint d div 1000"
  by (simp add: Microseconds_def signed_divide_int_def sgn_if)

lemma control_line_valid:
  assumes "Check config = None"
  shows "control_line config =
     Type config @ '' '' @ Sprintf_d (sint (StallWindowDuration config) div 1000) @ '' ''
       @ Sprintf_d (sint (WindowDuration config) div 1000) @ [CHR 0x00]"
  using Check_None_nonneg [OF assms] by (simp add: control_line_def Microseconds_nonneg)

lemma Monitor_writes_once:
  assumes "Check config = None"
    and "os_OpenFile env (pressure_path (Resource config)) = Inr fd"
    and "Monitor env config cb = Some (x, tr)"
  shows "filter is_write tr = [EvWrite fd (control_line config)]"
proof (cases "Fprintf env fd (control_line config)")
  case (Some err)
  with assms show ?thesis
    by (auto simp: Monitor_write_fails is_write_def)
next
  case None
  with assms obtain tr' where
    l: "leaves_at env cb fd 0
          [EvOpen (pressure_path (Resource config)), EvWrite fd (control_line config)]
          (x, tr')"
    and tr: "tr = tr' @ [EvClose fd]"
    by (auto simp: Monitor_armed_Some)
  from leaves_at_events [OF l] obtain k l where
    "tr' = [EvOpen (pressure_path (Resource config)), EvWrite fd (control_line config)]
             @ rounds fd k @ l"
    and "l = [EvPoll fd] \<or> l = [EvPoll fd, EvCallback]"
    by blast
  with tr show ?thesis
    by (auto simp: filter_rounds_write is_write_def)
qed

lemma Check_main_config: "Check main_config = None"
  by (simp add: main_config_def Second_div_10 Check_def Millisecond_500 Millisecond_50 Millisecond_100
      Second_val word_sless_alt)

lemma leaves_at_stop:
  assumes "\<forall>j<k. unix_Poll env fd j = Poll_returns None \<and> cb j = None"
    and "unix_Poll env fd k = Poll_returns None" and "cb k = Some err"
  shows "leaves_at env cb fd 0 tr
           (if err = ErrStopMonitoring then None else Some err,
            tr @ rounds fd (Suc k))"
  unfolding leaves_at_def using assms
  by (intro exI [of _ k]) (simp add: rounds_snoc)

lemma leaves_at_poll_error:
  assumes "\<forall>j<k. unix_Poll env fd j = Poll_returns None \<and> cb j = None"
    and "unix_Poll env fd k = Poll_returns (Some err)"
  shows "leaves_at env cb fd 0 tr (Some err, tr @ rounds fd k @ [EvPoll fd])"
  unfolding leaves_at_def using assms
  by (intro exI [of _ k]) simp

lemma leaves_at_0_cases:
  assumes "leaves_at env cb fd 0 tr (x, tr')"
  shows "\<exists>k. (\<forall>j<k. unix_Poll env fd j = Poll_returns None \<and> cb j = None) \<and>
           ((\<exists>err. unix_Poll env fd k = Poll_returns (Some err) \<and> x = Some err) \<or>
            (\<exists>err. unix_Poll env fd k = Poll_returns None \<and> cb k = Some err \<and>
                   x = (if err = ErrStopMonitoring then None else Some err)))"
proof -
  from assms obtain k where
    q: "\<forall>j<k. unix_Poll env fd j = Poll_returns None \<and> cb j = None"
    and e: "(\<exists>err. unix_Poll env fd k = Poll_returns (Some err) \<and>
                  (x, tr') = (Some err, tr @ rounds fd k @ [EvPoll fd])) \<or>
           (\<exists>err. unix_Poll env fd k = Poll_returns None \<and> cb k = Some err \<and>
                  (x, tr') = (if err = ErrStopMonitoring then None else Some err,
                       tr @ rounds fd k @ [EvPoll fd, EvCallback]))"
    unfolding leaves_at_def by auto
  from e have "(\<exists>err. unix_Poll env fd k = Poll_returns (Some err) \<and> x = Some err) \<or>
            (\<exists>err. unix_Poll env fd k = Poll_returns None \<and> cb k = Some err \<and>
                   x = (if err = ErrStopMonitoring then None else Some err))"
    by blast
  with q show ?thesis by blast
qed

lemma Monitor_returns_callback:
  assumes "Check config = None"
    and "os_OpenFile env (pressure_path (Resource config)) = Inr fd"
    and "Fprintf env fd (control_line config) = None"
    and "\<forall>j<k. unix_Poll env fd j = Poll_returns None \<and> cb j = None"
    and "unix_Poll env fd k = Poll_returns None"
    and "cb k = Some err"
  shows "Monitor env config cb =
           Some (if err = ErrStopMonitoring then None else Some err,
                 [EvOpen (pressure_path (Resource config)), EvWrite fd (control_line config)]
                   @ rounds fd (Suc k) @ [EvClose fd])"
proof -
  have "leaves_at env cb fd 0
          [EvOpen (pressure_path (Resource config)), EvWrite fd (control_line config)]
          (if err = ErrStopMonitoring then None else Some err,
           [EvOpen (pressure_path (Resource config)), EvWrite fd (control_line config)]
             @ rounds fd (Suc k))"
    using assms(4-6) by (rule leaves_at_stop)
  then have "Monitor_loop env cb fd 0
          [EvOpen (pressure_path (Resource config)), EvWrite fd (control_line config)]
        = Some (if err = ErrStopMonitoring then None else Some err,
                [EvOpen (pressure_path (Resource config)), EvWrite fd (control_line config)]
                  @ rounds fd (Suc k))"
    by (simp only: Monitor_loop_iff)
  then show ?thesis
    by (simp add: Monitor_armed [OF assms(1-3)] deferred_Close_def)
qed

lemma Monitor_returns_poll_error:
  assumes "Check config = None"
    and "os_OpenFile env (pressure_path (Resource config)) = Inr fd"
    and "Fprintf env fd (control_line config) = None"
    and "\<forall>j<k. unix_Poll env fd j = Poll_returns None \<and> cb j = None"
    and "unix_Poll env fd k = Poll_returns (Some err)"
  shows "Monitor env config cb =
           Some (Some err,
                 [EvOpen (pressure_path (Resource config)), EvWrite fd (control_line config)]
                   @ rounds fd k @ [EvPoll fd, EvClose fd])"
proof -
  have "leaves_at env cb fd 0
          [EvOpen (pressure_path (Resource config)), EvWrite fd (control_line config)]
          (Some err,
           [EvOpen (pressure_path (Resource config)), EvWrite fd (control_line config)]
             @ rounds fd k @ [EvPoll fd])"
    using assms(4,5) by (rule leaves_at_poll_error)
  then have "Monitor_loop env cb fd 0
          [EvOpen (pressure_path (Resource config)), EvWrite fd (control_line config)]
        = Some (Some err,
                [EvOpen (pressure_path (Resource config)), EvWrite fd (control_line config)]
                  @ rounds fd k @ [EvPoll fd])"
    by (simp only: Monitor_loop_iff)
  then show ?thesis
    by (simp add: Monitor_armed [OF assms(1-3)] deferred_Close_def)
qed

lemma main_config_fields:
  "pressure_path (Resource main_config) = ''/proc/pressure/cpu''"
  "control_line main_config = ''some 100000 1000000'' @ [CHR 0x00]"
  by (simp_all add: main_config_def Second_div_10 pressure_path_def ResourceCPU_def StallTypeSome_def
      control_line_def Microseconds_100ms Microseconds_1s Sprintf_d_100000 Sprintf_d_1000000)

lemma kernel_ok_simps:
  "os_OpenFile kernel_ok path = Inr 3" "Fprintf kernel_ok fd s = None"
  "unix_Poll kernel_ok fd i = Poll_returns None"
  by (simp_all add: kernel_ok_def)

lemma rounds_3: "rounds fd (Suc 2) = [EvPoll fd, EvCallback, EvPoll fd, EvCallback, EvPoll fd, EvCallback]"
  by (simp add: rounds_def numeral_2_eq_2)

lemma main_config_sint:
  "sint (StallWindowDuration main_config) div 1000 = 100000"
  "sint (WindowDuration main_config) div 1000 = 1000000"
  "Type main_config = ''some''"
  by (simp_all add: main_config_def Second_div_10 Millisecond_100 Second_val StallTypeSome_def)

text \<open>The two revisions of \<open>Monitor\<close>.\<close>

lemma Monitor_loop_to_psi_go:
  assumes "Monitor_loop env cb fd i tr = Some y"
  shows "Monitor_loop_psi_go env cb fd i tr = Some (nil_as_sentinel y)"
proof (rule Monitor_loop.raw_induct
    [where P = "\<lambda>env cb fd i tr y. Monitor_loop_psi_go env cb fd i tr = Some (nil_as_sentinel y)",
      OF _ assms])
  fix loop :: "env \<Rightarrow> MonitorCallback \<Rightarrow> nat \<Rightarrow> nat \<Rightarrow> event list \<Rightarrow> (error option \<times> event list) option"
  fix env cb fd i tr y
  assume IH: "\<And>env cb fd i tr y. loop env cb fd i tr = Some y \<Longrightarrow>
                Monitor_loop_psi_go env cb fd i tr = Some (nil_as_sentinel y)"
  assume body: "(case unix_Poll env fd i of
        Poll_blocks \<Rightarrow> None
      | Poll_returns (Some err) \<Rightarrow> Some (Some err, tr @ [EvPoll fd])
      | Poll_returns None \<Rightarrow>
          (case cb i of
             Some err \<Rightarrow>
               if err = ErrStopMonitoring
               then Some (None, tr @ [EvPoll fd, EvCallback])
               else Some (Some err, tr @ [EvPoll fd, EvCallback])
           | None \<Rightarrow> loop env cb fd (Suc i) (tr @ [EvPoll fd, EvCallback]))) = Some y"
  show "Monitor_loop_psi_go env cb fd i tr = Some (nil_as_sentinel y)"
  proof (cases "unix_Poll env fd i")
    case Poll_blocks
    with body show ?thesis by simp
  next
    case (Poll_returns r)
    show ?thesis
    proof (cases r)
      case (Some err)
      with Poll_returns body show ?thesis
        by (subst Monitor_loop_psi_go.simps) (auto simp: nil_as_sentinel_def)
    next
      case None
      note ready = Poll_returns [unfolded None]
      show ?thesis
      proof (cases "cb i")
        case (Some err)
        with ready body show ?thesis
          by (subst Monitor_loop_psi_go.simps) (auto simp: nil_as_sentinel_def split: if_splits)
      next
        case None
        with ready body have "loop env cb fd (Suc i) (tr @ [EvPoll fd, EvCallback]) = Some y"
          by simp
        then have "Monitor_loop_psi_go env cb fd (Suc i) (tr @ [EvPoll fd, EvCallback])
                     = Some (nil_as_sentinel y)"
          by (rule IH)
        with ready None show ?thesis
          by (subst Monitor_loop_psi_go.simps) simp
      qed
    qed
  qed
qed

lemma Monitor_loop_from_psi_go:
  assumes "Monitor_loop_psi_go env cb fd i tr = Some z"
  shows "\<exists>y. Monitor_loop env cb fd i tr = Some y \<and> z = nil_as_sentinel y"
proof (rule Monitor_loop_psi_go.raw_induct
    [where P = "\<lambda>env cb fd i tr z. \<exists>y. Monitor_loop env cb fd i tr = Some y \<and> z = nil_as_sentinel y",
      OF _ assms])
  fix loop :: "env \<Rightarrow> MonitorCallback \<Rightarrow> nat \<Rightarrow> nat \<Rightarrow> event list \<Rightarrow> (error option \<times> event list) option"
  fix env cb fd i tr z
  assume IH: "\<And>env cb fd i tr z. loop env cb fd i tr = Some z \<Longrightarrow>
                \<exists>y. Monitor_loop env cb fd i tr = Some y \<and> z = nil_as_sentinel y"
  assume body: "(case unix_Poll env fd i of
        Poll_blocks \<Rightarrow> None
      | Poll_returns (Some err) \<Rightarrow> Some (Some err, tr @ [EvPoll fd])
      | Poll_returns None \<Rightarrow>
          (case cb i of
             Some err \<Rightarrow> Some (Some err, tr @ [EvPoll fd, EvCallback])
           | None \<Rightarrow> loop env cb fd (Suc i) (tr @ [EvPoll fd, EvCallback]))) = Some z"
  show "\<exists>y. Monitor_loop env cb fd i tr = Some y \<and> z = nil_as_sentinel y"
  proof (cases "unix_Poll env fd i")
    case Poll_blocks
    with body show ?thesis by simp
  next
    case (Poll_returns r)
    show ?thesis
    proof (cases r)
      case (Some err)
      with Poll_returns body show ?thesis
        by (subst Monitor_loop.simps) (auto simp: nil_as_sentinel_def)
    next
      case None
      note ready = Poll_returns [unfolded None]
      show ?thesis
      proof (cases "cb i")
        case (Some err)
        with ready body show ?thesis
          by (subst Monitor_loop.simps) (auto simp: nil_as_sentinel_def)
      next
        case None
        with ready body have "loop env cb fd (Suc i) (tr @ [EvPoll fd, EvCallback]) = Some z"
          by simp
        then have "\<exists>y. Monitor_loop env cb fd (Suc i) (tr @ [EvPoll fd, EvCallback]) = Some y
                       \<and> z = nil_as_sentinel y"
          by (rule IH)
        with ready None show ?thesis
          by (subst Monitor_loop.simps) simp
      qed
    qed
  qed
qed

lemma Monitor_loop_psi_go_eq:
  "Monitor_loop_psi_go env cb fd i tr = map_option nil_as_sentinel (Monitor_loop env cb fd i tr)"
proof (cases "Monitor_loop env cb fd i tr")
  case None
  then show ?thesis
    using Monitor_loop_from_psi_go [of env cb fd i tr]
    by (cases "Monitor_loop_psi_go env cb fd i tr") auto
next
  case (Some y)
  then show ?thesis by (simp add: Monitor_loop_to_psi_go)
qed

lemma deferred_Close_nil_as_sentinel:
  "deferred_Close fd (map_option nil_as_sentinel r) = map_option nil_as_sentinel (deferred_Close fd r)"
  by (cases r) (auto simp: deferred_Close_def nil_as_sentinel_def split: option.splits)

lemma Monitor_psi_go_eq:
  "Monitor_psi_go env config cb = map_option nil_as_sentinel (Monitor env config cb)"
proof (cases "Check config")
  case (Some err)
  then show ?thesis
    by (simp add: Monitor_psi_go_def Monitor_def nil_as_sentinel_def)
next
  case valid: None
  show ?thesis
  proof (cases "os_OpenFile env (pressure_path (Resource config))")
    case (Inl err)
    with valid show ?thesis
      by (simp add: Monitor_psi_go_def Monitor_def nil_as_sentinel_def)
  next
    case (Inr fd)
    show ?thesis
    proof (cases "Fprintf env fd (control_line config)")
      case (Some err)
      with valid Inr show ?thesis
        by (simp add: Monitor_psi_go_def Monitor_def deferred_Close_def nil_as_sentinel_def)
    next
      case None
      with valid Inr show ?thesis
        by (simp add: Monitor_psi_go_def Monitor_def Monitor_loop_psi_go_eq
            deferred_Close_nil_as_sentinel)
    qed
  qed
qed

lemma Monitor_psi_go_never_nil: "Monitor_psi_go env config cb \<noteq> Some (None, tr)"
  by (cases "Monitor env config cb")
    (auto simp: Monitor_psi_go_eq nil_as_sentinel_def split: option.splits)

lemma Monitor_main_never_returns: "Monitor kernel_ok main_config (\<lambda>i. None) = None"
proof (cases "Monitor kernel_ok main_config (\<lambda>i. None)")
  case None
  then show ?thesis .
next
  case (Some y)
  obtain x tr where y: "y = (x, tr)" by (cases y)
  have opened: "os_OpenFile kernel_ok (pressure_path (Resource main_config)) = Inr 3"
    and written: "Fprintf kernel_ok 3 (control_line main_config) = None"
    by (simp_all add: kernel_ok_simps)
  from Some y obtain tr' where
    "leaves_at kernel_ok (\<lambda>i. None) 3 0
       [EvOpen (pressure_path (Resource main_config)), EvWrite 3 (control_line main_config)]
       (x, tr')"
    by (auto simp: Monitor_armed_Some [OF Check_main_config opened written])
  from leaves_at_0_cases [OF this] show ?thesis
    by (simp add: kernel_ok_simps)
qed

text \<open>The session after a bounded number of rounds.\<close>

lemma is_write_simps:
  "is_write (EvWrite fd s)" "\<not> is_write (EvOpen path)" "\<not> is_write (EvPoll fd)"
  "\<not> is_write EvCallback" "\<not> is_write (EvClose fd)"
  by (simp_all add: is_write_def)

lemma Monitor_loop_rounds_writes:
  "filter is_write (snd (Monitor_loop_rounds n env cb fd i tr)) = filter is_write tr"
proof (induction n arbitrary: i tr)
  case 0
  show ?case by simp
next
  case (Suc n)
  show ?case
  proof (cases "unix_Poll env fd i")
    case Poll_blocks
    then show ?thesis by (simp add: is_write_simps)
  next
    case (Poll_returns r)
    show ?thesis
    proof (cases r)
      case (Some err)
      with Poll_returns show ?thesis by (simp add: is_write_simps)
    next
      case None
      note ready = Poll_returns [unfolded None]
      show ?thesis
      proof (cases "cb i")
        case (Some err)
        with ready show ?thesis by (simp add: is_write_simps)
      next
        case None
        with ready show ?thesis by (simp add: Suc.IH is_write_simps)
      qed
    qed
  qed
qed

lemma deferred_Close_rounds_writes:
  "filter is_write (snd (deferred_Close_rounds fd r)) = filter is_write (snd r)"
  by (cases r) (simp add: deferred_Close_rounds_def is_write_simps split: progress.splits)

lemma Monitor_rounds_writes_once:
  assumes "Check config = None"
    and "os_OpenFile env (pressure_path (Resource config)) = Inr fd"
  shows "filter is_write (snd (Monitor_rounds n env config cb)) = [EvWrite fd (control_line config)]"
proof (cases "Fprintf env fd (control_line config)")
  case None
  with assms show ?thesis
    by (simp add: Monitor_rounds_def deferred_Close_rounds_writes Monitor_loop_rounds_writes
        is_write_simps)
next
  case (Some err)
  with assms show ?thesis
    by (simp add: Monitor_rounds_def deferred_Close_rounds_writes is_write_simps)
qed

text \<open>
  \<open>Monitor\<close> returns a result with some events exactly when, for some bound on the
  rounds, \<open>Monitor_rounds\<close> has returned the same.
\<close>

lemma Monitor_loop_rounds_returned:
  "Monitor_loop_rounds n env cb fd i tr = (Returned x, tr') \<Longrightarrow>
   Monitor_loop env cb fd i tr = Some (x, tr')"
proof (induction n arbitrary: i tr)
  case 0
  then show ?case by simp
next
  case (Suc n)
  show ?case
  proof (cases "unix_Poll env fd i")
    case Poll_blocks
    with Suc.prems show ?thesis by simp
  next
    case (Poll_returns r)
    show ?thesis
    proof (cases r)
      case (Some err)
      with Poll_returns Suc.prems show ?thesis
        by (subst Monitor_loop.simps) auto
    next
      case None
      note ready = Poll_returns [unfolded None]
      show ?thesis
      proof (cases "cb i")
        case (Some err)
        with ready Suc.prems show ?thesis
          by (subst Monitor_loop.simps) (auto split: if_splits)
      next
        case None
        with ready Suc.prems
        have "Monitor_loop_rounds n env cb fd (Suc i) (tr @ [EvPoll fd, EvCallback]) = (Returned x, tr')"
          by simp
        then have "Monitor_loop env cb fd (Suc i) (tr @ [EvPoll fd, EvCallback]) = Some (x, tr')"
          by (rule Suc.IH)
        with ready None show ?thesis
          by (subst Monitor_loop.simps) simp
      qed
    qed
  qed
qed

lemma Monitor_loop_returns_rounds:
  assumes "Monitor_loop env cb fd i tr = Some y"
  shows "\<exists>n. Monitor_loop_rounds n env cb fd i tr = (Returned (fst y), snd y)"
proof (rule Monitor_loop.raw_induct
    [where P = "\<lambda>env cb fd i tr y.
        \<exists>n. Monitor_loop_rounds n env cb fd i tr = (Returned (fst y), snd y)",
      OF _ assms])
  fix loop :: "env \<Rightarrow> MonitorCallback \<Rightarrow> nat \<Rightarrow> nat \<Rightarrow> event list \<Rightarrow> (error option \<times> event list) option"
  fix env cb fd i tr y
  assume IH: "\<And>env cb fd i tr y. loop env cb fd i tr = Some y \<Longrightarrow>
                \<exists>n. Monitor_loop_rounds n env cb fd i tr = (Returned (fst y), snd y)"
  assume body: "(case unix_Poll env fd i of
        Poll_blocks \<Rightarrow> None
      | Poll_returns (Some err) \<Rightarrow> Some (Some err, tr @ [EvPoll fd])
      | Poll_returns None \<Rightarrow>
          (case cb i of
             Some err \<Rightarrow>
               if err = ErrStopMonitoring
               then Some (None, tr @ [EvPoll fd, EvCallback])
               else Some (Some err, tr @ [EvPoll fd, EvCallback])
           | None \<Rightarrow> loop env cb fd (Suc i) (tr @ [EvPoll fd, EvCallback]))) = Some y"
  show "\<exists>n. Monitor_loop_rounds n env cb fd i tr = (Returned (fst y), snd y)"
  proof (cases "unix_Poll env fd i")
    case Poll_blocks
    with body show ?thesis by simp
  next
    case (Poll_returns r)
    show ?thesis
    proof (cases r)
      case (Some err)
      with Poll_returns body
      have "Monitor_loop_rounds (Suc 0) env cb fd i tr = (Returned (fst y), snd y)"
        by auto
      then show ?thesis ..
    next
      case None
      note ready = Poll_returns [unfolded None]
      show ?thesis
      proof (cases "cb i")
        case (Some err)
        with ready body
        have "Monitor_loop_rounds (Suc 0) env cb fd i tr = (Returned (fst y), snd y)"
          by (auto split: if_splits)
        then show ?thesis ..
      next
        case None
        with ready body have "loop env cb fd (Suc i) (tr @ [EvPoll fd, EvCallback]) = Some y"
          by simp
        from IH [OF this] obtain n where
          "Monitor_loop_rounds n env cb fd (Suc i) (tr @ [EvPoll fd, EvCallback])
             = (Returned (fst y), snd y)" ..
        with ready None
        have "Monitor_loop_rounds (Suc n) env cb fd i tr = (Returned (fst y), snd y)"
          by simp
        then show ?thesis ..
      qed
    qed
  qed
qed

lemma Monitor_loop_rounds_iff:
  "Monitor_loop env cb fd i tr = Some (x, tr') \<longleftrightarrow>
   (\<exists>n. Monitor_loop_rounds n env cb fd i tr = (Returned x, tr'))"
  using Monitor_loop_returns_rounds [of env cb fd i tr "(x, tr')"]
    Monitor_loop_rounds_returned [of _ env cb fd i tr x tr']
  by auto

lemma deferred_Close_rounds_Returned:
  "deferred_Close_rounds fd r = (Returned x, tr) \<longleftrightarrow>
   (\<exists>tr'. r = (Returned x, tr') \<and> tr = tr' @ [EvClose fd])"
  by (cases r) (auto simp: deferred_Close_rounds_def split: progress.splits)

lemma Monitor_rounds_iff:
  "Monitor env config cb = Some (x, tr) \<longleftrightarrow>
   (\<exists>n. Monitor_rounds n env config cb = (Returned x, tr))"
proof (cases "Check config")
  case (Some err)
  then show ?thesis
    by (auto simp: Monitor_def Monitor_rounds_def)
next
  case valid: None
  show ?thesis
  proof (cases "os_OpenFile env (pressure_path (Resource config))")
    case (Inl err)
    with valid show ?thesis
      by (auto simp: Monitor_def Monitor_rounds_def)
  next
    case (Inr fd)
    show ?thesis
    proof (cases "Fprintf env fd (control_line config)")
      case (Some err)
      with valid Inr show ?thesis
        by (auto simp: Monitor_def Monitor_rounds_def deferred_Close_def
            deferred_Close_rounds_def)
    next
      case None
      with valid Inr show ?thesis
        by (simp add: Monitor_def Monitor_rounds_def deferred_Close_Some
            deferred_Close_rounds_Returned Monitor_loop_rounds_iff) blast
    qed
  qed
qed

section \<open>Properties of Monitor\<close>

text \<open>
  C9: if \<open>Check\<close> fails on the Config, \<open>Monitor\<close> returns that error at once and
  nothing has happened: no file was opened, no control line written, no wait made and
  the callback not invoked (the list of events is empty).
\<close>

theorem Monitor_invalid_config:
  "Check config = Some err \<Longrightarrow> Monitor env config cb = Some (Some err, [])"
  by (simp add: Monitor_def)

theorem Monitor_invalid_config_witness:
  "Monitor kernel_ok (main_config\<lparr>WindowDuration := Millisecond * 499\<rparr>) (\<lambda>i. None)
     = Some (Some (Errorf ''Minmum WindowDuration is 500ms''), [])"
proof -
  have "Check (main_config\<lparr>WindowDuration := Millisecond * 499\<rparr>)
          = Some (Errorf ''Minmum WindowDuration is 500ms'')"
    by (simp add: Check_def Millisecond_def Microsecond_def Nanosecond_def word_sless_alt)
  then show ?thesis by (rule Monitor_invalid_config)
qed

text \<open>
  C8: on every return of \<open>Monitor\<close> after a successful open (the stop by the
  sentinel, a failed write of the control line, a failed wait, a callback error) the
  file is closed exactly once: the events hold one close, of the opened file, and it is
  the last event.
\<close>

theorem Monitor_closes_once:
  assumes "Check config = None"
    and "os_OpenFile env (pressure_path (Resource config)) = Inr fd"
    and "Monitor env config cb = Some (x, tr)"
  shows "filter is_close tr = [EvClose fd] \<and> last tr = EvClose fd"
proof (cases "Fprintf env fd (control_line config)")
  case (Some err)
  with assms show ?thesis
    by (auto simp: Monitor_write_fails is_close_def)
next
  case None
  with assms obtain tr' where
    l: "leaves_at env cb fd 0
          [EvOpen (pressure_path (Resource config)), EvWrite fd (control_line config)]
          (x, tr')"
    and tr: "tr = tr' @ [EvClose fd]"
    by (auto simp: Monitor_armed_Some)
  from leaves_at_events [OF l] obtain k l where
    "tr' = [EvOpen (pressure_path (Resource config)), EvWrite fd (control_line config)]
             @ rounds fd k @ l"
    and "l = [EvPoll fd] \<or> l = [EvPoll fd, EvCallback]"
    by blast
  with tr show ?thesis
    by (auto simp: filter_rounds_close is_close_def)
qed

theorem Monitor_closes_once_witness:
  "(\<exists>tr. Monitor kernel_ok main_config (\<lambda>i. if i = 1 then Some ErrStopMonitoring else None)
            = Some (None, tr) \<and>
         filter is_close tr = [EvClose 3] \<and> last tr = EvClose 3) \<and>
   (\<exists>tr. Monitor (kernel_ok\<lparr>Fprintf := \<lambda>fd s. Some (Errno 22)\<rparr>) main_config (\<lambda>i. None)
            = Some (Some (Errno 22), tr) \<and>
         filter is_close tr = [EvClose 3] \<and> last tr = EvClose 3) \<and>
   (\<exists>tr. Monitor (kernel_ok\<lparr>unix_Poll := \<lambda>fd i. Poll_returns (Some (Errno 4))\<rparr>)
            main_config (\<lambda>i. None)
            = Some (Some (Errno 4), tr) \<and>
         filter is_close tr = [EvClose 3] \<and> last tr = EvClose 3) \<and>
   (\<exists>tr. Monitor kernel_ok main_config (\<lambda>i. Some (Errno 5)) = Some (Some (Errno 5), tr) \<and>
         filter is_close tr = [EvClose 3] \<and> last tr = EvClose 3)"
proof (intro conjI)
  let ?cb = "\<lambda>i::nat. if i = 1 then Some ErrStopMonitoring else None"
  have opened: "os_OpenFile kernel_ok (pressure_path (Resource main_config)) = Inr 3"
    by (simp add: kernel_ok_simps)
  have "\<exists>tr. Monitor kernel_ok main_config ?cb = Some (None, tr)"
    using Monitor_returns_callback [of main_config kernel_ok 3 1 ?cb ErrStopMonitoring]
    by (simp add: Check_main_config kernel_ok_simps)
  then obtain tr where run: "Monitor kernel_ok main_config ?cb = Some (None, tr)" ..
  from Monitor_closes_once [OF Check_main_config opened run] run
  show "\<exists>tr. Monitor kernel_ok main_config ?cb = Some (None, tr) \<and>
         filter is_close tr = [EvClose 3] \<and> last tr = EvClose 3"
    by blast
next
  let ?env = "kernel_ok\<lparr>Fprintf := \<lambda>fd s. Some (Errno 22)\<rparr>"
  have opened: "os_OpenFile ?env (pressure_path (Resource main_config)) = Inr 3"
    by (simp add: kernel_ok_def)
  have "\<exists>tr. Monitor ?env main_config (\<lambda>i. None) = Some (Some (Errno 22), tr)"
    using Monitor_write_fails [of main_config ?env 3 "Errno 22" "\<lambda>i. None"]
    by (simp add: Check_main_config kernel_ok_def)
  then obtain tr where run: "Monitor ?env main_config (\<lambda>i. None) = Some (Some (Errno 22), tr)" ..
  from Monitor_closes_once [OF Check_main_config opened run] run
  show "\<exists>tr. Monitor ?env main_config (\<lambda>i. None) = Some (Some (Errno 22), tr) \<and>
         filter is_close tr = [EvClose 3] \<and> last tr = EvClose 3"
    by blast
next
  let ?env = "kernel_ok\<lparr>unix_Poll := \<lambda>fd i. Poll_returns (Some (Errno 4))\<rparr>"
  have opened: "os_OpenFile ?env (pressure_path (Resource main_config)) = Inr 3"
    by (simp add: kernel_ok_def)
  have "\<exists>tr. Monitor ?env main_config (\<lambda>i. None) = Some (Some (Errno 4), tr)"
    using Monitor_returns_poll_error [of main_config ?env 3 0 "\<lambda>i. None" "Errno 4"]
    by (simp add: Check_main_config kernel_ok_def)
  then obtain tr where run: "Monitor ?env main_config (\<lambda>i. None) = Some (Some (Errno 4), tr)" ..
  from Monitor_closes_once [OF Check_main_config opened run] run
  show "\<exists>tr. Monitor ?env main_config (\<lambda>i. None) = Some (Some (Errno 4), tr) \<and>
         filter is_close tr = [EvClose 3] \<and> last tr = EvClose 3"
    by blast
next
  let ?cb = "\<lambda>i::nat. Some (Errno 5)"
  have opened: "os_OpenFile kernel_ok (pressure_path (Resource main_config)) = Inr 3"
    by (simp add: kernel_ok_simps)
  have "\<exists>tr. Monitor kernel_ok main_config ?cb = Some (Some (Errno 5), tr)"
    using Monitor_returns_callback [of main_config kernel_ok 3 0 ?cb "Errno 5"]
    by (simp add: Check_main_config kernel_ok_simps)
  then obtain tr where run: "Monitor kernel_ok main_config ?cb = Some (Some (Errno 5), tr)" ..
  from Monitor_closes_once [OF Check_main_config opened run] run
  show "\<exists>tr. Monitor kernel_ok main_config ?cb = Some (Some (Errno 5), tr) \<and>
         filter is_close tr = [EvClose 3] \<and> last tr = EvClose 3"
    by blast
qed

text \<open>
  C5: after a successful open exactly one control line is written, of the form
  stall type, space, StallWindowDuration in whole microseconds, space, WindowDuration
  in whole microseconds, one NUL byte, no newline; for Type "some", 100ms and 1s it is
  \<^verbatim>\<open>some 100000 1000000\<close> followed by NUL. This holds of every session, whether
  it returns or not: whatever the bound \<open>n\<close> on the rounds of the loop, also none, the
  events so far hold exactly this one write; and so do the events of a session that
  has returned. The durations of a Config that passed \<open>Check\<close> are positive, so that
  the truncating division is \<open>div\<close>; read as base-10 numbers, the two fields are those
  quotients.
\<close>

theorem control_line_written:
  "(Check config = None \<and>
    os_OpenFile env (pressure_path (Resource config)) = Inr fd \<longrightarrow>
      filter is_write (snd (Monitor_rounds n env config cb)) =
        [EvWrite fd (Type config @ '' ''
           @ Sprintf_d (sint (StallWindowDuration config) div 1000) @ '' ''
           @ Sprintf_d (sint (WindowDuration config) div 1000) @ [CHR 0x00])]) \<and>
   (Check config = None \<and>
    os_OpenFile env (pressure_path (Resource config)) = Inr fd \<and>
    Monitor env config cb = Some (x, tr) \<longrightarrow>
      filter is_write tr =
        [EvWrite fd (Type config @ '' ''
           @ Sprintf_d (sint (StallWindowDuration config) div 1000) @ '' ''
           @ Sprintf_d (sint (WindowDuration config) div 1000) @ [CHR 0x00])]) \<and>
   (Check config = None \<longrightarrow>
      int (decimal_value (Sprintf_d (sint (StallWindowDuration config) div 1000)))
        = sint (StallWindowDuration config) div 1000 \<and>
      int (decimal_value (Sprintf_d (sint (WindowDuration config) div 1000)))
        = sint (WindowDuration config) div 1000) \<and>
   control_line \<lparr>Resource = res, Type = ''some'', StallWindowDuration = Millisecond * 100,
                 WindowDuration = Second\<rparr>
     = ''some 100000 1000000'' @ [CHR 0x00]"
proof (intro conjI)
  show "Check config = None \<and>
    os_OpenFile env (pressure_path (Resource config)) = Inr fd \<longrightarrow>
      filter is_write (snd (Monitor_rounds n env config cb)) =
        [EvWrite fd (Type config @ '' ''
           @ Sprintf_d (sint (StallWindowDuration config) div 1000) @ '' ''
           @ Sprintf_d (sint (WindowDuration config) div 1000) @ [CHR 0x00])]"
  proof
    assume a: "Check config = None \<and>
      os_OpenFile env (pressure_path (Resource config)) = Inr fd"
    then have "filter is_write (snd (Monitor_rounds n env config cb))
                 = [EvWrite fd (control_line config)]"
      using Monitor_rounds_writes_once by blast
    with a show "filter is_write (snd (Monitor_rounds n env config cb)) =
        [EvWrite fd (Type config @ '' ''
           @ Sprintf_d (sint (StallWindowDuration config) div 1000) @ '' ''
           @ Sprintf_d (sint (WindowDuration config) div 1000) @ [CHR 0x00])]"
      by (simp add: control_line_valid)
  qed
next
  show "Check config = None \<and>
    os_OpenFile env (pressure_path (Resource config)) = Inr fd \<and>
    Monitor env config cb = Some (x, tr) \<longrightarrow>
      filter is_write tr =
        [EvWrite fd (Type config @ '' ''
           @ Sprintf_d (sint (StallWindowDuration config) div 1000) @ '' ''
           @ Sprintf_d (sint (WindowDuration config) div 1000) @ [CHR 0x00])]"
  proof
    assume a: "Check config = None \<and>
      os_OpenFile env (pressure_path (Resource config)) = Inr fd \<and>
      Monitor env config cb = Some (x, tr)"
    then have "filter is_write tr = [EvWrite fd (control_line config)]"
      using Monitor_writes_once by blast
    with a show "filter is_write tr =
        [EvWrite fd (Type config @ '' ''
           @ Sprintf_d (sint (StallWindowDuration config) div 1000) @ '' ''
           @ Sprintf_d (sint (WindowDuration config) div 1000) @ [CHR 0x00])]"
      by (simp add: control_line_valid)
  qed
next
  show "Check config = None \<longrightarrow>
      int (decimal_value (Sprintf_d (sint (StallWindowDuration config) div 1000)))
        = sint (StallWindowDuration config) div 1000 \<and>
      int (decimal_value (Sprintf_d (sint (WindowDuration config) div 1000)))
        = sint (WindowDuration config) div 1000"
  proof
    assume "Check config = None"
    from Check_None_nonneg [OF this]
    have "0 \<le> sint (StallWindowDuration config) div 1000"
      and "0 \<le> sint (WindowDuration config) div 1000"
      by simp_all
    then show "int (decimal_value (Sprintf_d (sint (StallWindowDuration config) div 1000)))
        = sint (StallWindowDuration config) div 1000 \<and>
      int (decimal_value (Sprintf_d (sint (WindowDuration config) div 1000)))
        = sint (WindowDuration config) div 1000"
      by (simp add: decimal_value_Sprintf_d)
  qed
next
  show "control_line \<lparr>Resource = res, Type = ''some'', StallWindowDuration = Millisecond * 100,
                 WindowDuration = Second\<rparr>
     = ''some 100000 1000000'' @ [CHR 0x00]"
    by (simp add: control_line_def Microseconds_100ms Microseconds_1s Sprintf_d_100000
        Sprintf_d_1000000)
qed

theorem control_line_written_witness:
  "Monitor kernel_ok main_config (\<lambda>i. None) = None \<and>
   filter is_write (snd (Monitor_rounds 0 kernel_ok main_config (\<lambda>i. None)))
     = [EvWrite 3 (''some 100000 1000000'' @ [CHR 0x00])] \<and>
   filter is_write (snd (Monitor_rounds 2 kernel_ok main_config (\<lambda>i. None)))
     = [EvWrite 3 (''some 100000 1000000'' @ [CHR 0x00])] \<and>
   filter is_write
       (snd (Monitor_rounds 5 (kernel_ok\<lparr>unix_Poll := \<lambda>fd i. Poll_blocks\<rparr>) main_config
               (\<lambda>i. None)))
     = [EvWrite 3 (''some 100000 1000000'' @ [CHR 0x00])] \<and>
   (\<exists>x tr. Monitor kernel_ok main_config (\<lambda>i. Some ErrStopMonitoring) = Some (x, tr) \<and>
           filter is_write tr = [EvWrite 3 (''some 100000 1000000'' @ [CHR 0x00])]) \<and>
   decimal_value ''100000'' = 100000 \<and> decimal_value ''1000000'' = 1000000"
proof -
  have opened: "Check main_config = None \<and>
      os_OpenFile kernel_ok (pressure_path (Resource main_config)) = Inr 3"
    by (simp add: Check_main_config kernel_ok_simps)
  have opened': "Check main_config = None \<and>
      os_OpenFile (kernel_ok\<lparr>unix_Poll := \<lambda>fd i. Poll_blocks\<rparr>)
        (pressure_path (Resource main_config)) = Inr 3"
    by (simp add: Check_main_config kernel_ok_def)
  from control_line_written
    [where config = main_config and env = kernel_ok and fd = 3 and n = 0 and cb = "\<lambda>i. None"]
    opened
  have r0: "filter is_write (snd (Monitor_rounds 0 kernel_ok main_config (\<lambda>i. None)))
     = [EvWrite 3 (''some 100000 1000000'' @ [CHR 0x00])]"
    by (simp add: main_config_sint Sprintf_d_100000 Sprintf_d_1000000)
  from control_line_written
    [where config = main_config and env = kernel_ok and fd = 3 and n = 2 and cb = "\<lambda>i. None"]
    opened
  have r2: "filter is_write (snd (Monitor_rounds 2 kernel_ok main_config (\<lambda>i. None)))
     = [EvWrite 3 (''some 100000 1000000'' @ [CHR 0x00])]"
    by (simp add: main_config_sint Sprintf_d_100000 Sprintf_d_1000000)
  from control_line_written
    [where config = main_config and env = "kernel_ok\<lparr>unix_Poll := \<lambda>fd i. Poll_blocks\<rparr>"
       and fd = 3 and n = 5 and cb = "\<lambda>i. None"]
    opened'
  have r5: "filter is_write
       (snd (Monitor_rounds 5 (kernel_ok\<lparr>unix_Poll := \<lambda>fd i. Poll_blocks\<rparr>) main_config
               (\<lambda>i. None)))
     = [EvWrite 3 (''some 100000 1000000'' @ [CHR 0x00])]"
    by (simp add: main_config_sint Sprintf_d_100000 Sprintf_d_1000000)
  from control_line_written [where config = main_config] Check_main_config
  have numbers: "decimal_value ''100000'' = 100000 \<and> decimal_value ''1000000'' = 1000000"
    by (simp add: main_config_sint Sprintf_d_100000 Sprintf_d_1000000)
  have run: "Monitor kernel_ok main_config (\<lambda>i. Some ErrStopMonitoring)
      = Some (None, [EvOpen ''/proc/pressure/cpu'',
                     EvWrite 3 (''some 100000 1000000'' @ [CHR 0x00]),
                     EvPoll 3, EvCallback, EvClose 3])"
    using Monitor_returns_callback
      [of main_config kernel_ok 3 0 "\<lambda>i. Some ErrStopMonitoring" ErrStopMonitoring]
    by (simp add: Check_main_config kernel_ok_simps main_config_fields rounds_Suc rounds_0)
  have "Check main_config = None \<and>
    os_OpenFile kernel_ok (pressure_path (Resource main_config)) = Inr 3 \<and>
    Monitor kernel_ok main_config (\<lambda>i. Some ErrStopMonitoring)
      = Some (None, [EvOpen ''/proc/pressure/cpu'',
                     EvWrite 3 (''some 100000 1000000'' @ [CHR 0x00]),
                     EvPoll 3, EvCallback, EvClose 3])"
    using run by (simp add: Check_main_config kernel_ok_simps)
  with control_line_written
    [where config = main_config and env = kernel_ok and fd = 3
       and cb = "\<lambda>i. Some ErrStopMonitoring" and x = None
       and tr = "[EvOpen ''/proc/pressure/cpu'',
                  EvWrite 3 (''some 100000 1000000'' @ [CHR 0x00]),
                  EvPoll 3, EvCallback, EvClose 3]"]
  have "filter is_write [EvOpen ''/proc/pressure/cpu'',
          EvWrite 3 (''some 100000 1000000'' @ [CHR 0x00]), EvPoll 3, EvCallback, EvClose 3]
        = [EvWrite 3 (''some 100000 1000000'' @ [CHR 0x00])]"
    by (simp add: main_config_sint Sprintf_d_100000 Sprintf_d_1000000)
  with run have returned:
    "\<exists>x tr. Monitor kernel_ok main_config (\<lambda>i. Some ErrStopMonitoring) = Some (x, tr) \<and>
           filter is_write tr = [EvWrite 3 (''some 100000 1000000'' @ [CHR 0x00])]"
    by blast
  from Monitor_main_never_returns r0 r2 r5 returned numbers show ?thesis
    by (intro conjI) (erule conjunct1 conjunct2 | assumption)+
qed

text \<open>
  C6: with a valid Config, a successful open and a successful write of the control
  line, a callback that returns the sentinel at its first invocation (the first wait
  has returned) makes \<open>Monitor\<close> return \<^verbatim>\<open>nil\<close> after exactly one invocation of the
  callback.
\<close>

theorem Monitor_stops_at_first_callback:
  assumes "Check config = None"
    and "os_OpenFile env (pressure_path (Resource config)) = Inr fd"
    and "Fprintf env fd (control_line config) = None"
    and "unix_Poll env fd 0 = Poll_returns None"
    and "cb 0 = Some ErrStopMonitoring"
  shows "Monitor env config cb =
           Some (None, [EvOpen (pressure_path (Resource config)),
                        EvWrite fd (control_line config), EvPoll fd, EvCallback, EvClose fd]) \<and>
         count_list [EvOpen (pressure_path (Resource config)),
                     EvWrite fd (control_line config), EvPoll fd, EvCallback, EvClose fd]
           EvCallback = 1"
proof -
  have "\<forall>j<0::nat. unix_Poll env fd j = Poll_returns None \<and> cb j = None"
    by simp
  from Monitor_returns_callback [OF assms(1-3) this assms(4,5)] show ?thesis
    by (simp add: rounds_Suc rounds_0)
qed

theorem Monitor_stops_at_first_callback_witness:
  "Monitor kernel_ok main_config (\<lambda>i. Some ErrStopMonitoring)
     = Some (None, [EvOpen ''/proc/pressure/cpu'',
                    EvWrite 3 (''some 100000 1000000'' @ [CHR 0x00]),
                    EvPoll 3, EvCallback, EvClose 3])"
  using Monitor_stops_at_first_callback
    [of main_config kernel_ok 3 "\<lambda>i. Some ErrStopMonitoring"]
  by (simp add: Check_main_config kernel_ok_simps main_config_fields)

text \<open>
  C7: when the callback returns an error \<open>e\<close> other than the sentinel, at whatever
  invocation \<open>k\<close> (the invocations before returned \<^verbatim>\<open>nil\<close> and the waits returned
  without error), \<open>Monitor\<close> returns exactly \<open>e\<close>; the callback is not invoked again
  (it ran \<open>k + 1\<close> times) and the file is closed.
\<close>

theorem Monitor_callback_error:
  assumes "Check config = None"
    and "os_OpenFile env (pressure_path (Resource config)) = Inr fd"
    and "Fprintf env fd (control_line config) = None"
    and "\<forall>j<k. unix_Poll env fd j = Poll_returns None \<and> cb j = None"
    and "unix_Poll env fd k = Poll_returns None"
    and "cb k = Some e"
    and "e \<noteq> ErrStopMonitoring"
  shows "\<exists>tr. Monitor env config cb = Some (Some e, tr) \<and>
              tr = [EvOpen (pressure_path (Resource config)), EvWrite fd (control_line config)]
                     @ rounds fd (Suc k) @ [EvClose fd] \<and>
              count_list tr EvCallback = Suc k"
  using Monitor_returns_callback [OF assms(1-6)] assms(7)
  by (simp add: count_rounds_callback)

theorem Monitor_callback_error_witness:
  "Monitor kernel_ok main_config (\<lambda>i. if i = 2 then Some (Errorf ''psi: stop it'') else None)
     = Some (Some (Errorf ''psi: stop it''),
             [EvOpen ''/proc/pressure/cpu'', EvWrite 3 (''some 100000 1000000'' @ [CHR 0x00]),
              EvPoll 3, EvCallback, EvPoll 3, EvCallback, EvPoll 3, EvCallback, EvClose 3])"
proof -
  let ?cb = "\<lambda>i::nat. if i = 2 then Some (Errorf ''psi: stop it'') else None"
  have opened: "os_OpenFile kernel_ok (pressure_path (Resource main_config)) = Inr 3"
    and written: "Fprintf kernel_ok 3 (control_line main_config) = None"
    and quiet: "\<forall>j<2. unix_Poll kernel_ok 3 j = Poll_returns None \<and> ?cb j = None"
    and ready: "unix_Poll kernel_ok 3 2 = Poll_returns None"
    and fails: "?cb 2 = Some (Errorf ''psi: stop it'')"
    and other: "Errorf ''psi: stop it'' \<noteq> ErrStopMonitoring"
    by (simp_all add: kernel_ok_simps)
  from Monitor_callback_error [OF Check_main_config opened written quiet ready fails other]
  have "Monitor kernel_ok main_config ?cb
      = Some (Some (Errorf ''psi: stop it''),
              [EvOpen (pressure_path (Resource main_config)),
               EvWrite 3 (control_line main_config)] @ rounds 3 (Suc 2) @ [EvClose 3])"
    by blast
  then show ?thesis
    by (simp only: main_config_fields rounds_3 append.simps)
qed

text \<open>
  C1: \<open>Monitor\<close> returns \<^verbatim>\<open>nil\<close> if and only if the callback returns the sentinel
  \<open>ErrStopMonitoring\<close> (at an invocation that is reached: validation, open and write
  succeeded and every round before went through). It returns an error \<open>e\<close> if and
  only if \<open>e\<close> is the first error met: of the validation, else of the open, else of the
  write, else of a wait or, other than the sentinel, of the callback, every round
  before having gone through.
\<close>

theorem Monitor_result:
  "((\<exists>tr. Monitor env config cb = Some (None, tr)) \<longleftrightarrow>
      (\<exists>fd k. Check config = None \<and>
         os_OpenFile env (pressure_path (Resource config)) = Inr fd \<and>
         Fprintf env fd (control_line config) = None \<and>
         (\<forall>j<k. unix_Poll env fd j = Poll_returns None \<and> cb j = None) \<and>
         unix_Poll env fd k = Poll_returns None \<and> cb k = Some ErrStopMonitoring)) \<and>
   ((\<exists>tr. Monitor env config cb = Some (Some e, tr)) \<longleftrightarrow>
      Check config = Some e \<or>
      (Check config = None \<and> os_OpenFile env (pressure_path (Resource config)) = Inl e) \<or>
      (\<exists>fd. Check config = None \<and>
         os_OpenFile env (pressure_path (Resource config)) = Inr fd \<and>
         (Fprintf env fd (control_line config) = Some e \<or>
          Fprintf env fd (control_line config) = None \<and>
          (\<exists>k. (\<forall>j<k. unix_Poll env fd j = Poll_returns None \<and> cb j = None) \<and>
             (unix_Poll env fd k = Poll_returns (Some e) \<or>
              unix_Poll env fd k = Poll_returns None \<and> cb k = Some e \<and>
              e \<noteq> ErrStopMonitoring)))))"
proof (cases "Check config")
  case (Some err)
  then show ?thesis by (simp add: Monitor_invalid)
next
  case valid: None
  show ?thesis
  proof (cases "os_OpenFile env (pressure_path (Resource config))")
    case (Inl err)
    with valid show ?thesis by (simp add: Monitor_open_fails)
  next
    case (Inr fd)
    show ?thesis
    proof (cases "Fprintf env fd (control_line config)")
      case (Some err)
      with valid Inr show ?thesis by (simp add: Monitor_write_fails)
    next
      case None
      let ?tr0 = "[EvOpen (pressure_path (Resource config)), EvWrite fd (control_line config)]"
      have ret: "(\<exists>tr. Monitor env config cb = Some (x, tr)) \<longleftrightarrow>
                 (\<exists>tr'. leaves_at env cb fd 0 ?tr0 (x, tr'))" for x
        by (simp add: Monitor_armed_Some [OF valid Inr None])
      have nil: "(\<exists>tr'. leaves_at env cb fd 0 ?tr0 (None, tr')) \<longleftrightarrow>
          (\<exists>k. (\<forall>j<k. unix_Poll env fd j = Poll_returns None \<and> cb j = None) \<and>
             unix_Poll env fd k = Poll_returns None \<and> cb k = Some ErrStopMonitoring)"
      proof
        assume "\<exists>tr'. leaves_at env cb fd 0 ?tr0 (None, tr')"
        then obtain tr' where "leaves_at env cb fd 0 ?tr0 (None, tr')" ..
        from leaves_at_0_cases [OF this]
        show "\<exists>k. (\<forall>j<k. unix_Poll env fd j = Poll_returns None \<and> cb j = None) \<and>
             unix_Poll env fd k = Poll_returns None \<and> cb k = Some ErrStopMonitoring"
          by (metis option.distinct(1))
      next
        assume "\<exists>k. (\<forall>j<k. unix_Poll env fd j = Poll_returns None \<and> cb j = None) \<and>
             unix_Poll env fd k = Poll_returns None \<and> cb k = Some ErrStopMonitoring"
        then obtain k where
          "\<forall>j<k. unix_Poll env fd j = Poll_returns None \<and> cb j = None"
          "unix_Poll env fd k = Poll_returns None" "cb k = Some ErrStopMonitoring"
          by blast
        from leaves_at_stop [OF this, of ?tr0]
        show "\<exists>tr'. leaves_at env cb fd 0 ?tr0 (None, tr')"
          by auto
      qed
      have err: "(\<exists>tr'. leaves_at env cb fd 0 ?tr0 (Some e, tr')) \<longleftrightarrow>
          (\<exists>k. (\<forall>j<k. unix_Poll env fd j = Poll_returns None \<and> cb j = None) \<and>
             (unix_Poll env fd k = Poll_returns (Some e) \<or>
              unix_Poll env fd k = Poll_returns None \<and> cb k = Some e \<and>
              e \<noteq> ErrStopMonitoring))"
      proof
        assume "\<exists>tr'. leaves_at env cb fd 0 ?tr0 (Some e, tr')"
        then obtain tr' where "leaves_at env cb fd 0 ?tr0 (Some e, tr')" ..
        from leaves_at_0_cases [OF this]
        show "\<exists>k. (\<forall>j<k. unix_Poll env fd j = Poll_returns None \<and> cb j = None) \<and>
             (unix_Poll env fd k = Poll_returns (Some e) \<or>
              unix_Poll env fd k = Poll_returns None \<and> cb k = Some e \<and>
              e \<noteq> ErrStopMonitoring)"
          by (metis option.distinct(1) option.inject)
      next
        assume "\<exists>k. (\<forall>j<k. unix_Poll env fd j = Poll_returns None \<and> cb j = None) \<and>
             (unix_Poll env fd k = Poll_returns (Some e) \<or>
              unix_Poll env fd k = Poll_returns None \<and> cb k = Some e \<and>
              e \<noteq> ErrStopMonitoring)"
        then obtain k where q: "\<forall>j<k. unix_Poll env fd j = Poll_returns None \<and> cb j = None"
          and c: "unix_Poll env fd k = Poll_returns (Some e) \<or>
              unix_Poll env fd k = Poll_returns None \<and> cb k = Some e \<and>
              e \<noteq> ErrStopMonitoring"
          by blast
        from c show "\<exists>tr'. leaves_at env cb fd 0 ?tr0 (Some e, tr')"
        proof
          assume "unix_Poll env fd k = Poll_returns (Some e)"
          from leaves_at_poll_error [OF q this, of ?tr0] show ?thesis by blast
        next
          assume c2: "unix_Poll env fd k = Poll_returns None \<and> cb k = Some e \<and>
              e \<noteq> ErrStopMonitoring"
          then have "leaves_at env cb fd 0 ?tr0
             (if e = ErrStopMonitoring then None else Some e, ?tr0 @ rounds fd (Suc k))"
            using q by (intro leaves_at_stop) simp_all
          with c2 show ?thesis by auto
        qed
      qed
      from valid Inr None show ?thesis
        by (simp add: ret nil err)
    qed
  qed
qed

theorem Monitor_result_witness:
  "(\<exists>tr. Monitor kernel_ok main_config (\<lambda>i. if i = 1 then Some ErrStopMonitoring else None)
          = Some (None, tr)) \<and>
   (\<exists>tr. Monitor (kernel_ok\<lparr>unix_Poll := \<lambda>fd i. Poll_returns (Some (Errno 4))\<rparr>) main_config
            (\<lambda>i. Some ErrStopMonitoring)
          = Some (Some (Errno 4), tr)) \<and>
   (\<nexists>tr. Monitor kernel_ok main_config (\<lambda>i. Some (Errorf ''psi: stop it'')) = Some (None, tr))"
proof (intro conjI)
  let ?cb = "\<lambda>i::nat. if i = 1 then Some ErrStopMonitoring else None"
  have "Check main_config = None \<and>
         os_OpenFile kernel_ok (pressure_path (Resource main_config)) = Inr 3 \<and>
         Fprintf kernel_ok 3 (control_line main_config) = None \<and>
         (\<forall>j<1. unix_Poll kernel_ok 3 j = Poll_returns None \<and> ?cb j = None) \<and>
         unix_Poll kernel_ok 3 1 = Poll_returns None \<and> ?cb 1 = Some ErrStopMonitoring"
    by (simp add: Check_main_config kernel_ok_simps)
  then have "\<exists>fd k. Check main_config = None \<and>
         os_OpenFile kernel_ok (pressure_path (Resource main_config)) = Inr fd \<and>
         Fprintf kernel_ok fd (control_line main_config) = None \<and>
         (\<forall>j<k. unix_Poll kernel_ok fd j = Poll_returns None \<and> ?cb j = None) \<and>
         unix_Poll kernel_ok fd k = Poll_returns None \<and> ?cb k = Some ErrStopMonitoring"
    by (intro exI [of _ 3] exI [of _ 1])
  then show "\<exists>tr. Monitor kernel_ok main_config ?cb = Some (None, tr)"
    by (rule Monitor_result [of kernel_ok main_config ?cb, THEN conjunct1, THEN iffD2])
next
  let ?env = "kernel_ok\<lparr>unix_Poll := \<lambda>fd i. Poll_returns (Some (Errno 4))\<rparr>"
  let ?cb = "\<lambda>i::nat. Some ErrStopMonitoring"
  have "Check main_config = None \<and>
         os_OpenFile ?env (pressure_path (Resource main_config)) = Inr 3 \<and>
         Fprintf ?env 3 (control_line main_config) = None \<and>
         (\<forall>j<0. unix_Poll ?env 3 j = Poll_returns None \<and> ?cb j = None) \<and>
         unix_Poll ?env 3 0 = Poll_returns (Some (Errno 4))"
    by (simp add: Check_main_config kernel_ok_def)
  then have "Check main_config = None \<and>
         os_OpenFile ?env (pressure_path (Resource main_config)) = Inr 3 \<and>
         (Fprintf ?env 3 (control_line main_config) = Some (Errno 4) \<or>
          Fprintf ?env 3 (control_line main_config) = None \<and>
          (\<exists>k. (\<forall>j<k. unix_Poll ?env 3 j = Poll_returns None \<and> ?cb j = None) \<and>
             (unix_Poll ?env 3 k = Poll_returns (Some (Errno 4)) \<or>
              unix_Poll ?env 3 k = Poll_returns None \<and> ?cb k = Some (Errno 4) \<and>
              Errno 4 \<noteq> ErrStopMonitoring)))"
    by blast
  then have "Check main_config = Some (Errno 4) \<or>
      (Check main_config = None \<and>
       os_OpenFile ?env (pressure_path (Resource main_config)) = Inl (Errno 4)) \<or>
      (\<exists>fd. Check main_config = None \<and>
         os_OpenFile ?env (pressure_path (Resource main_config)) = Inr fd \<and>
         (Fprintf ?env fd (control_line main_config) = Some (Errno 4) \<or>
          Fprintf ?env fd (control_line main_config) = None \<and>
          (\<exists>k. (\<forall>j<k. unix_Poll ?env fd j = Poll_returns None \<and> ?cb j = None) \<and>
             (unix_Poll ?env fd k = Poll_returns (Some (Errno 4)) \<or>
              unix_Poll ?env fd k = Poll_returns None \<and> ?cb k = Some (Errno 4) \<and>
              Errno 4 \<noteq> ErrStopMonitoring))))"
    by (intro disjI2 exI [of _ 3])
  then show "\<exists>tr. Monitor ?env main_config ?cb = Some (Some (Errno 4), tr)"
    by (rule Monitor_result [of ?env main_config ?cb "Errno 4", THEN conjunct2, THEN iffD2])
next
  let ?cb = "\<lambda>i::nat. Some (Errorf ''psi: stop it'')"
  have no: "\<not> (\<exists>fd k. Check main_config = None \<and>
         os_OpenFile kernel_ok (pressure_path (Resource main_config)) = Inr fd \<and>
         Fprintf kernel_ok fd (control_line main_config) = None \<and>
         (\<forall>j<k. unix_Poll kernel_ok fd j = Poll_returns None \<and> ?cb j = None) \<and>
         unix_Poll kernel_ok fd k = Poll_returns None \<and> ?cb k = Some ErrStopMonitoring)"
    by simp
  show "\<nexists>tr. Monitor kernel_ok main_config ?cb = Some (None, tr)"
  proof
    assume "\<exists>tr. Monitor kernel_ok main_config ?cb = Some (None, tr)"
    then have "\<exists>fd k. Check main_config = None \<and>
         os_OpenFile kernel_ok (pressure_path (Resource main_config)) = Inr fd \<and>
         Fprintf kernel_ok fd (control_line main_config) = None \<and>
         (\<forall>j<k. unix_Poll kernel_ok fd j = Poll_returns None \<and> ?cb j = None) \<and>
         unix_Poll kernel_ok fd k = Poll_returns None \<and> ?cb k = Some ErrStopMonitoring"
      by (rule Monitor_result [of kernel_ok main_config ?cb, THEN conjunct1, THEN iffD1])
    with no show False by (rule notE)
  qed
qed

section \<open>Properties of Explain\<close>

text \<open>
  C4: \<open>Explain\<close> starts with "at least one" for the stall type "some", with "all of"
  for "full" and with "UNKNOWN" for any other; for cpu, "some", 100ms and 1s it returns
  "at least one of the tasks in the queue are waiting for cpu for longer than 100ms
  measured within a 1s time window" and a newline, and with "full" the same string with
  "all of" in the place of "at least one".
\<close>

theorem Explain_text:
  "(Type c = ''some'' \<longrightarrow>
      Explain c = ''at least one'' @ '' of the tasks in the queue are waiting for '' @ Resource c
        @ '' for longer than '' @ Duration_String (StallWindowDuration c)
        @ '' measured within a '' @ Duration_String (WindowDuration c)
        @ '' time window'' @ [CHR 0x0A]) \<and>
   (Type c = ''full'' \<longrightarrow>
      Explain c = ''all of'' @ '' of the tasks in the queue are waiting for '' @ Resource c
        @ '' for longer than '' @ Duration_String (StallWindowDuration c)
        @ '' measured within a '' @ Duration_String (WindowDuration c)
        @ '' time window'' @ [CHR 0x0A]) \<and>
   (Type c \<noteq> ''some'' \<and> Type c \<noteq> ''full'' \<longrightarrow>
      Explain c = ''UNKNOWN'' @ '' of the tasks in the queue are waiting for '' @ Resource c
        @ '' for longer than '' @ Duration_String (StallWindowDuration c)
        @ '' measured within a '' @ Duration_String (WindowDuration c)
        @ '' time window'' @ [CHR 0x0A]) \<and>
   Explain \<lparr>Resource = ''cpu'', Type = ''some'', StallWindowDuration = Millisecond * 100,
            WindowDuration = Second\<rparr>
     = ''at least one of the tasks in the queue are waiting for cpu for longer than 100ms measured within a 1s time window''
       @ [CHR 0x0A] \<and>
   Explain \<lparr>Resource = ''cpu'', Type = ''full'', StallWindowDuration = Millisecond * 100,
            WindowDuration = Second\<rparr>
     = ''all of of the tasks in the queue are waiting for cpu for longer than 100ms measured within a 1s time window''
       @ [CHR 0x0A]"
  by (simp add: Explain_def StallTypeSome_def StallTypeFull_def Duration_String_100ms
      Duration_String_1s)

theorem Explain_text_witness:
  "Explain \<lparr>Resource = ''io'', Type = ''some'', StallWindowDuration = Second,
            WindowDuration = Second\<rparr>
     = ''at least one of the tasks in the queue are waiting for io for longer than 1s measured within a 1s time window''
       @ [CHR 0x0A] \<and>
   Explain \<lparr>Resource = ''io'', Type = ''full'', StallWindowDuration = Second,
            WindowDuration = Second\<rparr>
     = ''all of of the tasks in the queue are waiting for io for longer than 1s measured within a 1s time window''
       @ [CHR 0x0A] \<and>
   Explain \<lparr>Resource = ''io'', Type = ''most'', StallWindowDuration = Second,
            WindowDuration = Second\<rparr>
     = ''UNKNOWN of the tasks in the queue are waiting for io for longer than 1s measured within a 1s time window''
       @ [CHR 0x0A]"
  using
    Explain_text [of "\<lparr>Resource = ''io'', Type = ''some'', StallWindowDuration = Second,
            WindowDuration = Second\<rparr>"]
    Explain_text [of "\<lparr>Resource = ''io'', Type = ''full'', StallWindowDuration = Second,
            WindowDuration = Second\<rparr>"]
    Explain_text [of "\<lparr>Resource = ''io'', Type = ''most'', StallWindowDuration = Second,
            WindowDuration = Second\<rparr>"]
  by (simp add: Duration_String_1s)


end
